theory Spec2Isabelle
  imports Main
begin

section \<open>Keenetic control module: a shallow embedding\<close>

text \<open>
  The module is a client for the management API of a Keenetic router: a class
  \<open>KeeneticControl\<close> whose private method \<open>request\<close> is the request pipeline, some
  thirty thin domain operations on top of it, an aggregate export, and a process-wide
  singleton accessor.

  Conventions of the embedding.
  \<^item> A JavaScript \<open>number\<close> is an \<open>int\<close>: the numbers of this module are counts,
    milliseconds, ports and rule ids. Fractions, \<open>NaN\<close> and the infinities are outside the
    model.
  \<^item> A JavaScript string is a \<open>string\<close> whose characters are the code units below 256.
  \<^item> An optional field (\<open>port?: number\<close>) is an \<open>option\<close>; \<open>None\<close> is \<open>undefined\<close>.
  \<^item> A thrown \<open>Error\<close> (a rejected promise) is the left summand of a sum type.
  \<^item> The network and the console are an explicit \<open>world\<close> that every operation takes
    and returns.
\<close>

subsection \<open>Strings and numbers of the platform\<close>

definition newline :: string where
  "newline = [CHR 0x0A]"

definition dquote :: char where
  "dquote = CHR 0x22"

definition backslash :: char where
  "backslash = CHR 0x5C"

definition spaces :: "nat \<Rightarrow> string" where
  \<comment> \<open>\<open>" ".repeat(n)\<close>\<close>
  "spaces n = replicate n CHR '' ''"

definition is_whitespace :: "char \<Rightarrow> bool" where
  \<comment> \<open>white space and line terminators below 256: tab, LF, VT, FF, CR, space, NBSP\<close>
  "is_whitespace c = (c \<in> set [CHR 0x09, CHR 0x0A, CHR 0x0B, CHR 0x0C, CHR 0x0D, CHR 0x20, CHR 0xA0])"

definition trimStart :: "string \<Rightarrow> string" where
  "trimStart s = dropWhile is_whitespace s"

fun join :: "string \<Rightarrow> string list \<Rightarrow> string" where
  \<comment> \<open>\<open>Array.prototype.join\<close>\<close>
  "join sep [] = []"
| "join sep [x] = x"
| "join sep (x # y # ys) = x @ sep @ join sep (y # ys)"

definition digit :: "nat \<Rightarrow> char" where
  "digit d = ''0123456789'' ! d"

fun digits :: "nat \<Rightarrow> string" where
  "digits n = (if n < 10 then [digit n] else digits (n div 10) @ [digit (n mod 10)])"

declare digits.simps [simp del]

definition String_int :: "int \<Rightarrow> string" where
  \<comment> \<open>\<open>String(n)\<close> and \<open>`${n}`\<close> for an integral number\<close>
  "String_int n = (if n < 0 then CHR ''-'' # digits (nat (- n)) else digits (nat n))"

text \<open>Reading a decimal numeral back; used only to show that \<open>String_int\<close> is injective.\<close>

definition digit_val :: "char \<Rightarrow> nat" where
  "digit_val c = of_char c - 48"

definition undigits :: "string \<Rightarrow> nat" where
  "undigits s = foldl (\<lambda>acc c. 10 * acc + digit_val c) 0 s"

definition parse_int :: "string \<Rightarrow> int" where
  "parse_int s = (case s of
      [] \<Rightarrow> 0
    | c # cs \<Rightarrow> if c = CHR ''-'' then - int (undigits cs) else int (undigits s))"

subsection \<open>\<open>btoa\<close>: base64 of a byte string\<close>

definition b64_alphabet :: string where
  "b64_alphabet = ''ABCDEFGHIJKLMNOPQRSTUVWXYZabcdefghijklmnopqrstuvwxyz0123456789+/''"

definition b64_char :: "nat \<Rightarrow> char" where
  "b64_char i = b64_alphabet ! (i mod 64)"

fun b64_groups :: "nat list \<Rightarrow> string" where
  "b64_groups [] = []"
| "b64_groups [a] =
     [b64_char (a div 4), b64_char ((a mod 4) * 16), CHR ''='', CHR ''='']"
| "b64_groups [a, b] =
     [b64_char (a div 4), b64_char ((a mod 4) * 16 + b div 16),
      b64_char ((b mod 16) * 4), CHR ''='']"
| "b64_groups (a # b # c # rest) =
     [b64_char (a div 4), b64_char ((a mod 4) * 16 + b div 16),
      b64_char ((b mod 16) * 4 + c div 64), b64_char (c mod 64)] @ b64_groups rest"


definition btoa :: "string \<Rightarrow> string" where
  \<comment> \<open>\<open>btoa\<close> on the strings of the model, whose characters are all below 256\<close>
  "btoa s = b64_groups (map of_char s)"

subsection \<open>Credentials, options and the constructor\<close>

record KeeneticCredentials =
  host :: string
  username :: string
  password :: string
  port :: "int option"
  secure :: "bool option"

record KeeneticControlOptions =
  credentials :: KeeneticCredentials
  opt_timeout :: "int option"
  opt_retryCount :: "int option"
  opt_retryDelay :: "int option"
  opt_debug :: "bool option"

record KeeneticControl =
  this_credentials :: KeeneticCredentials
  timeout :: int
  retryCount :: int
  retryDelay :: int
  debug :: bool

definition or_number :: "int option \<Rightarrow> int \<Rightarrow> int" where
  \<comment> \<open>\<open>x || d\<close> for an optional number: \<open>undefined\<close> and \<open>0\<close> are falsy\<close>
  "or_number x d = (case x of None \<Rightarrow> d | Some v \<Rightarrow> if v = 0 then d else v)"

definition or_bool :: "bool option \<Rightarrow> bool \<Rightarrow> bool" where
  \<comment> \<open>\<open>x || d\<close> for an optional boolean\<close>
  "or_bool x d = (case x of None \<Rightarrow> d | Some v \<Rightarrow> if v then v else d)"

definition constructor :: "KeeneticControlOptions \<Rightarrow> KeeneticControl" where
  "constructor options =
     \<lparr> this_credentials = credentials options,
       timeout = or_number (opt_timeout options) 10000,
       retryCount = or_number (opt_retryCount options) 3,
       retryDelay = or_number (opt_retryDelay options) 1000,
       debug = or_bool (opt_debug options) False \<rparr>"

definition getBaseUrl :: "KeeneticControl \<Rightarrow> string" where
  "getBaseUrl this =
     (let c = this_credentials this;
          protocol = (if secure c \<noteq> Some False then ''https'' else ''http'');
          portStr = (case port c of
                       None \<Rightarrow> ''''
                     | Some p \<Rightarrow> if p \<noteq> 0 then '':'' @ String_int p else '''')
      in protocol @ ''://'' @ host c @ portStr)"

text \<open>
  A headers object is a map from its keys to its values. The keys are compared as the
  strings they are; nothing folds their case. A value is a string, or an array of strings
  when the object was filled from an array of pairs.
\<close>

datatype header_value = HString string | HArray "string list"

type_synonym headers = "string \<rightharpoonup> header_value"

definition getAuthHeader :: "KeeneticControl \<Rightarrow> headers" where
  "getAuthHeader this =
     (let c = this_credentials this
      in [''Authorization'' \<mapsto> HString (''Basic '' @ btoa (username c @ '':'' @ password c))])"

text \<open>
  The \<open>headers\<close> of a \<open>RequestInit\<close> are a \<open>HeadersInit\<close>: a plain object, an array of
  name and value pairs, or a \<open>Headers\<close> instance. Spreading one into an object literal
  copies its own enumerable properties: the entries of a plain object, the elements of an
  array under their indices, and nothing of a \<open>Headers\<close> instance.
\<close>

datatype HeadersInit =
    HeadersRecord "string \<rightharpoonup> string"
  | HeadersPairs "string list list"
  | HeadersInstance "(string \<times> string) list"

definition own_properties :: "HeadersInit \<Rightarrow> headers" where
  "own_properties h = (case h of
      HeadersRecord m \<Rightarrow> map_option HString \<circ> m
    | HeadersPairs ps \<Rightarrow>
        map_of (zip (map (\<lambda>i. String_int (int i)) [0..<length ps]) (map HArray ps))
    | HeadersInstance hs \<Rightarrow> Map.empty)"

subsection \<open>Objects and JSON values\<close>

text \<open>
  A JSON object is an association list in the order of its keys (the order \<open>Object.keys\<close>
  gives for keys that are not array indices).
\<close>

datatype json =
    JNull
  | JUndefined
  | JBool bool
  | JNum int
  | JString string
  | JArray "json list"
  | JObject "(string \<times> json) list"

definition hex_digit :: "nat \<Rightarrow> char" where
  "hex_digit d = ''0123456789abcdef'' ! (d mod 16)"

definition quote_char :: "char \<Rightarrow> string" where
  "quote_char c =
     (if c = dquote then [backslash, dquote]
      else if c = backslash then [backslash, backslash]
      else if c = CHR 0x08 then [backslash, CHR ''b'']
      else if c = CHR 0x09 then [backslash, CHR ''t'']
      else if c = CHR 0x0A then [backslash, CHR ''n'']
      else if c = CHR 0x0C then [backslash, CHR ''f'']
      else if c = CHR 0x0D then [backslash, CHR ''r'']
      else if (of_char c :: nat) < 32
        then [backslash, CHR ''u'', CHR ''0'', CHR ''0'',
              hex_digit (of_char c div 16), hex_digit (of_char c mod 16)]
      else [c])"

definition quote :: "string \<Rightarrow> string" where
  "quote s = dquote # concat (map quote_char s) @ [dquote]"

fun JSON_stringify :: "json \<Rightarrow> string option" where
  \<comment> \<open>\<open>JSON.stringify(v)\<close>; \<open>None\<close> is the result \<open>undefined\<close>\<close>
  "JSON_stringify JNull = Some ''null''"
| "JSON_stringify JUndefined = None"
| "JSON_stringify (JBool b) = Some (if b then ''true'' else ''false'')"
| "JSON_stringify (JNum n) = Some (String_int n)"
| "JSON_stringify (JString s) = Some (quote s)"
| "JSON_stringify (JArray items) =
     Some (''['' @ join '','' (map (\<lambda>item. case JSON_stringify item of
                                               None \<Rightarrow> ''null''
                                             | Some t \<Rightarrow> t) items) @ '']'')"
| "JSON_stringify (JObject props) =
     Some (''{'' @ join '','' (concat (map (\<lambda>(key, value). case JSON_stringify value of
                                               None \<Rightarrow> []
                                             | Some t \<Rightarrow> [quote key @ '':'' @ t]) props)) @ ''}'')"

subsection \<open>The YAML transcription\<close>

definition needs_quoting :: "char \<Rightarrow> bool" where
  \<comment> \<open>the character class of the source's regular expression\<close>
  "needs_quoting c =
     (c \<in> set [CHR '':'', CHR ''#'', CHR ''{'', CHR ''}'', CHR ''['', CHR '']'', CHR '','',
                CHR ''&'', CHR ''*'', CHR ''?'', CHR ''|'', CHR ''<'', CHR ''>'', CHR ''='',
                CHR ''!'', CHR ''%'', CHR ''@'', CHR 0x60])"

definition escape_dquotes :: "string \<Rightarrow> string" where
  "escape_dquotes s = concat (map (\<lambda>c. if c = dquote then [backslash, dquote] else [c]) s)"

fun nonempty_object :: "json \<Rightarrow> bool" where
  "nonempty_object (JObject props) = (props \<noteq> [])"
| "nonempty_object _ = False"

fun nonempty_array :: "json \<Rightarrow> bool" where
  "nonempty_array (JArray items) = (items \<noteq> [])"
| "nonempty_array _ = False"

fun jsonToYaml :: "json \<Rightarrow> nat \<Rightarrow> string" where
  "jsonToYaml JNull indent = ''null''"
| "jsonToYaml JUndefined indent = ''null''"
| "jsonToYaml (JString s) indent =
     (if list_ex needs_quoting s then dquote # escape_dquotes s @ [dquote] else s)"
| "jsonToYaml (JNum n) indent = String_int n"
| "jsonToYaml (JBool b) indent = (if b then ''true'' else ''false'')"
| "jsonToYaml (JArray items) indent =
     (if items = [] then ''[]''
      else join newline
        (map (\<lambda>item. spaces indent @ ''- '' @ trimStart (jsonToYaml item (indent + 2))) items))"
| "jsonToYaml (JObject props) indent =
     (if props = [] then ''{}''
      else join newline
        (map (\<lambda>(key, value).
            if nonempty_object value
              then spaces indent @ key @ '':'' @ newline @ jsonToYaml value (indent + 2)
            else if nonempty_array value
              then spaces indent @ key @ '':'' @ newline @ jsonToYaml value (indent + 2)
            else spaces indent @ key @ '': '' @ jsonToYaml value (indent + 2)) props))"

subsection \<open>The transport and the world\<close>

datatype error =
    Error string
  | TypeError string
  | AbortError
  | SyntaxError string

record response =
  status :: int
  statusText :: string
  json_body :: "error + json"
  blob_body :: string

definition ok :: "response \<Rightarrow> bool" where
  "ok r = (200 \<le> status r \<and> status r \<le> 299)"

datatype body = Text string | FormData "(string \<times> string) list"

record RequestInit =
  req_method :: "string option"
  req_body :: "body option"
  req_headers :: "HeadersInit option"

definition no_options :: RequestInit where
  \<comment> \<open>the default \<open>options = {}\<close>\<close>
  "no_options = \<lparr> req_method = None, req_body = None, req_headers = None \<rparr>"

record fetch_call =
  url :: string
  call_method :: "string option"
  call_body :: "body option"
  call_headers :: headers
  signal :: "int option"

definition effective_method :: "fetch_call \<Rightarrow> string" where
  \<comment> \<open>\<open>fetch\<close> sends GET when no method is given\<close>
  "effective_method c = (case call_method c of None \<Rightarrow> ''GET'' | Some m \<Rightarrow> m)"

text \<open>
  The world holds what the module does to its environment: the calls of \<open>fetch\<close> in the
  order they were issued, the delays waited between attempts, and the lines of the console.
  The transport is deterministic: its answer to a call is a function of the call and of
  the number of earlier calls to the same URL. The field \<open>signal\<close> of a call is the time
  in milliseconds after which the abort signal fires; a transport that takes longer
  answers \<open>Inl AbortError\<close>. The field \<open>json_body\<close> of a response is what \<open>response.json()\<close>
  settles to: the parsed body, or the parse error.
\<close>

record world =
  calls :: "fetch_call list"
  delays :: "int list"
  console :: "string list list"

definition world0 :: world where
  "world0 = \<lparr> calls = [], delays = [], console = [] \<rparr>"

type_synonym transport = "nat \<Rightarrow> fetch_call \<Rightarrow> error + response"

definition count_url :: "string \<Rightarrow> fetch_call list \<Rightarrow> nat" where
  "count_url u cs = length (filter (\<lambda>c. url c = u) cs)"

definition fetch :: "transport \<Rightarrow> fetch_call \<Rightarrow> world \<Rightarrow> (error + response) \<times> world" where
  "fetch net c w = (net (count_url (url c) (calls w)) c, w\<lparr>calls := calls w @ [c]\<rparr>)"

definition sleep :: "int \<Rightarrow> world \<Rightarrow> world" where
  "sleep ms w = w\<lparr>delays := delays w @ [ms]\<rparr>"

definition error_text :: "error \<Rightarrow> string" where
  "error_text e = (case e of
      Error m \<Rightarrow> ''Error: '' @ m
    | TypeError m \<Rightarrow> ''TypeError: '' @ m
    | AbortError \<Rightarrow> ''AbortError''
    | SyntaxError m \<Rightarrow> ''SyntaxError: '' @ m)"

definition log :: "KeeneticControl \<Rightarrow> string list \<Rightarrow> world \<Rightarrow> world" where
  "log this args w =
     (if debug this then w\<lparr>console := console w @ [''[KeeneticControl]'' # args]\<rparr> else w)"

subsection \<open>The request pipeline\<close>

definition or_string :: "string option \<Rightarrow> string \<Rightarrow> string" where
  \<comment> \<open>\<open>x || d\<close> for an optional string: \<open>undefined\<close> and the empty string are falsy\<close>
  "or_string x d = (case x of None \<Rightarrow> d | Some v \<Rightarrow> if v = [] then d else v)"

definition request_headers :: "KeeneticControl \<Rightarrow> RequestInit \<Rightarrow> headers" where
  \<comment> \<open>\<open>{...this.getAuthHeader(), "Content-Type": "application/json", ...(options.headers || {})}\<close>:
      a later property replaces an earlier one of the same key\<close>
  "request_headers this options =
     getAuthHeader this
     ++ [''Content-Type'' \<mapsto> HString ''application/json'']
     ++ (case req_headers options of None \<Rightarrow> Map.empty | Some h \<Rightarrow> own_properties h)"

definition request_call :: "KeeneticControl \<Rightarrow> string \<Rightarrow> RequestInit \<Rightarrow> fetch_call" where
  \<comment> \<open>the arguments of \<open>fetch\<close>: \<open>url\<close> and \<open>{...options, headers, signal}\<close>\<close>
  "request_call this endpoint options =
     \<lparr> url = getBaseUrl this @ endpoint,
       call_method = req_method options,
       call_body = req_body options,
       call_headers = request_headers this options,
       signal = Some (timeout this) \<rparr>"

definition attempt ::
  "transport \<Rightarrow> KeeneticControl \<Rightarrow> string \<Rightarrow> RequestInit \<Rightarrow> world \<Rightarrow> (error + json) \<times> world" where
  \<comment> \<open>the body of the \<open>try\<close> block: \<open>Inl\<close> is the error it throws\<close>
  "attempt net this endpoint options w =
     (let c = request_call this endpoint options;
          w1 = log this [''Requesting '' @ or_string (req_method options) ''GET'' @ '' '' @ url c] w;
          (r, w2) = fetch net c w1
      in (case r of
            Inl e \<Rightarrow> (Inl e, w2)
          | Inr response \<Rightarrow>
              if \<not> ok response
                then (Inl (Error (''API error: '' @ String_int (status response) @ '' ''
                                  @ statusText response)), w2)
              else (json_body response, w2)))"

function request ::
  "transport \<Rightarrow> KeeneticControl \<Rightarrow> string \<Rightarrow> RequestInit \<Rightarrow> int \<Rightarrow> world \<Rightarrow> (error + json) \<times> world" where
  "request net this endpoint options retries w =
     (case attempt net this endpoint options w of
        (Inr v, w') \<Rightarrow> (Inr v, w')
      | (Inl e, w') \<Rightarrow>
          if retries > 0
            then request net this endpoint options (retries - 1)
                   (sleep (retryDelay this)
                      (log this [''Request failed, retrying ('' @ String_int retries
                                 @ '' retries left)...'', error_text e] w'))
          else (Inl e, log this [''Request failed after all retries'', error_text e] w'))"
  by pat_completeness auto
termination
  by (relation "measure (\<lambda>(net, this, endpoint, options, retries, w). nat retries)") auto

declare request.simps [simp del]

subsection \<open>Domain operations\<close>

definition with_method :: "string \<Rightarrow> RequestInit" where
  \<comment> \<open>\<open>{ method: m }\<close>\<close>
  "with_method m = \<lparr> req_method = Some m, req_body = None, req_headers = None \<rparr>"

definition with_json :: "string \<Rightarrow> json \<Rightarrow> RequestInit" where
  \<comment> \<open>\<open>{ method: m, body: JSON.stringify(v) }\<close>\<close>
  "with_json m v = \<lparr> req_method = Some m, req_body = map_option Text (JSON_stringify v),
       req_headers = None \<rparr>"

definition void :: "(error + json) \<times> world \<Rightarrow> (error + unit) \<times> world" where
  \<comment> \<open>\<open>await this.request<void>(...)\<close> with the value dropped\<close>
  "void rw = (case rw of (Inl e, w) \<Rightarrow> (Inl e, w) | (Inr v, w) \<Rightarrow> (Inr (), w))"

definition testConnection :: "transport \<Rightarrow> KeeneticControl \<Rightarrow> world \<Rightarrow> bool \<times> world" where
  "testConnection net this w =
     (case request net this ''/rci/system/status'' no_options (retryCount this) w of
        (Inr v, w') \<Rightarrow> (True, w')
      | (Inl e, w') \<Rightarrow> (False, w'))"

definition getSystemInfo :: "transport \<Rightarrow> KeeneticControl \<Rightarrow> world \<Rightarrow> (error + json) \<times> world" where
  "getSystemInfo net this w = request net this ''/rci/show/system'' no_options (retryCount this) w"

definition getInterfaces :: "transport \<Rightarrow> KeeneticControl \<Rightarrow> world \<Rightarrow> (error + json) \<times> world" where
  "getInterfaces net this w = request net this ''/rci/show/interface'' no_options (retryCount this) w"

definition getInterface ::
  "transport \<Rightarrow> KeeneticControl \<Rightarrow> string \<Rightarrow> world \<Rightarrow> (error + json) \<times> world" where
  "getInterface net this name w =
     request net this (''/rci/show/interface/'' @ name) no_options (retryCount this) w"

definition configureInterface ::
  "transport \<Rightarrow> KeeneticControl \<Rightarrow> string \<Rightarrow> json \<Rightarrow> world \<Rightarrow> (error + json) \<times> world" where
  "configureInterface net this name config w =
     request net this (''/rci/interface/'' @ name) (with_json ''PATCH'' config) (retryCount this) w"

definition getWifiNetworks :: "transport \<Rightarrow> KeeneticControl \<Rightarrow> world \<Rightarrow> (error + json) \<times> world" where
  "getWifiNetworks net this w =
     request net this ''/rci/show/interface/wireless'' no_options (retryCount this) w"

definition configureWifiNetwork ::
  "transport \<Rightarrow> KeeneticControl \<Rightarrow> string \<Rightarrow> json \<Rightarrow> world \<Rightarrow> (error + json) \<times> world" where
  "configureWifiNetwork net this ssid config w =
     request net this (''/rci/wireless/ssid/'' @ ssid) (with_json ''PATCH'' config) (retryCount this) w"

definition createWifiNetwork ::
  "transport \<Rightarrow> KeeneticControl \<Rightarrow> json \<Rightarrow> world \<Rightarrow> (error + json) \<times> world" where
  "createWifiNetwork net this config w =
     request net this ''/rci/wireless/ssid'' (with_json ''POST'' config) (retryCount this) w"

definition deleteWifiNetwork ::
  "transport \<Rightarrow> KeeneticControl \<Rightarrow> string \<Rightarrow> world \<Rightarrow> (error + unit) \<times> world" where
  "deleteWifiNetwork net this ssid w =
     void (request net this (''/rci/wireless/ssid/'' @ ssid) (with_method ''DELETE'') (retryCount this) w)"

definition getConnectedClients :: "transport \<Rightarrow> KeeneticControl \<Rightarrow> world \<Rightarrow> (error + json) \<times> world" where
  "getConnectedClients net this w =
     request net this ''/rci/show/ip/hotspot'' no_options (retryCount this) w"

definition blockClient ::
  "transport \<Rightarrow> KeeneticControl \<Rightarrow> string \<Rightarrow> world \<Rightarrow> (error + unit) \<times> world" where
  "blockClient net this mac w =
     void (request net this (''/rci/ip/hotspot/mac/'' @ mac @ ''/block'') (with_method ''POST'')
             (retryCount this) w)"

definition unblockClient ::
  "transport \<Rightarrow> KeeneticControl \<Rightarrow> string \<Rightarrow> world \<Rightarrow> (error + unit) \<times> world" where
  "unblockClient net this mac w =
     void (request net this (''/rci/ip/hotspot/mac/'' @ mac @ ''/unblock'') (with_method ''POST'')
             (retryCount this) w)"

definition getVpnConnections :: "transport \<Rightarrow> KeeneticControl \<Rightarrow> world \<Rightarrow> (error + json) \<times> world" where
  "getVpnConnections net this w = request net this ''/rci/show/vpn'' no_options (retryCount this) w"

definition configureVpn ::
  "transport \<Rightarrow> KeeneticControl \<Rightarrow> string \<Rightarrow> json \<Rightarrow> world \<Rightarrow> (error + json) \<times> world" where
  "configureVpn net this type config w =
     request net this (''/rci/vpn/'' @ type) (with_json ''PATCH'' config) (retryCount this) w"

definition getFirewallRules :: "transport \<Rightarrow> KeeneticControl \<Rightarrow> world \<Rightarrow> (error + json) \<times> world" where
  "getFirewallRules net this w =
     request net this ''/rci/show/ip/firewall'' no_options (retryCount this) w"

definition addFirewallRule ::
  "transport \<Rightarrow> KeeneticControl \<Rightarrow> json \<Rightarrow> world \<Rightarrow> (error + json) \<times> world" where
  "addFirewallRule net this rule w =
     request net this ''/rci/ip/firewall/rule'' (with_json ''POST'' rule) (retryCount this) w"

definition updateFirewallRule ::
  "transport \<Rightarrow> KeeneticControl \<Rightarrow> int \<Rightarrow> json \<Rightarrow> world \<Rightarrow> (error + json) \<times> world" where
  "updateFirewallRule net this id' rule w =
     request net this (''/rci/ip/firewall/rule/'' @ String_int id') (with_json ''PATCH'' rule)
       (retryCount this) w"

definition deleteFirewallRule ::
  "transport \<Rightarrow> KeeneticControl \<Rightarrow> int \<Rightarrow> world \<Rightarrow> (error + unit) \<times> world" where
  "deleteFirewallRule net this id' w =
     void (request net this (''/rci/ip/firewall/rule/'' @ String_int id') (with_method ''DELETE'')
             (retryCount this) w)"

definition getDnsSettings :: "transport \<Rightarrow> KeeneticControl \<Rightarrow> world \<Rightarrow> (error + json) \<times> world" where
  "getDnsSettings net this w = request net this ''/rci/show/ip/dns'' no_options (retryCount this) w"

definition configureDns ::
  "transport \<Rightarrow> KeeneticControl \<Rightarrow> json \<Rightarrow> world \<Rightarrow> (error + json) \<times> world" where
  "configureDns net this settings w =
     request net this ''/rci/ip/dns'' (with_json ''PATCH'' settings) (retryCount this) w"

definition getDhcpServers :: "transport \<Rightarrow> KeeneticControl \<Rightarrow> world \<Rightarrow> (error + json) \<times> world" where
  "getDhcpServers net this w =
     request net this ''/rci/show/ip/dhcp/server'' no_options (retryCount this) w"

definition configureDhcpServer ::
  "transport \<Rightarrow> KeeneticControl \<Rightarrow> string \<Rightarrow> json \<Rightarrow> world \<Rightarrow> (error + json) \<times> world" where
  "configureDhcpServer net this interface_name config w =
     request net this (''/rci/ip/dhcp/server/'' @ interface_name) (with_json ''PATCH'' config)
       (retryCount this) w"

definition getUsbDevices :: "transport \<Rightarrow> KeeneticControl \<Rightarrow> world \<Rightarrow> (error + json) \<times> world" where
  "getUsbDevices net this w = request net this ''/rci/show/usb'' no_options (retryCount this) w"

definition property :: "json \<Rightarrow> string \<Rightarrow> error + json" where
  \<comment> \<open>\<open>v.key\<close>: a \<open>TypeError\<close> on \<open>null\<close> and \<open>undefined\<close>, \<open>undefined\<close> when the key is absent\<close>
  "property v key = (case v of
      JNull \<Rightarrow> Inl (TypeError ''Cannot read properties of null'')
    | JUndefined \<Rightarrow> Inl (TypeError ''Cannot read properties of undefined'')
    | JObject props \<Rightarrow> (case map_of props key of None \<Rightarrow> Inr JUndefined | Some x \<Rightarrow> Inr x)
    | _ \<Rightarrow> Inr JUndefined)"

definition executeCliCommand ::
  "transport \<Rightarrow> KeeneticControl \<Rightarrow> string \<Rightarrow> world \<Rightarrow> (error + json) \<times> world" where
  "executeCliCommand net this command w =
     (case request net this ''/rci/cli/execute''
             (with_json ''POST'' (JObject [(''command'', JString command)])) (retryCount this) w of
        (Inl e, w') \<Rightarrow> (Inl e, w')
      | (Inr response, w') \<Rightarrow> (property response ''output'', w'))"

definition executeSshCommand ::
  "transport \<Rightarrow> KeeneticControl \<Rightarrow> string \<Rightarrow> world \<Rightarrow> (error + json) \<times> world" where
  "executeSshCommand net this command w =
     (case request net this ''/rci/ssh/execute''
             (with_json ''POST'' (JObject [(''command'', JString command)])) (retryCount this) w of
        (Inl e, w') \<Rightarrow> (Inl e, w')
      | (Inr response, w') \<Rightarrow> (property response ''output'', w'))"

definition reboot :: "transport \<Rightarrow> KeeneticControl \<Rightarrow> world \<Rightarrow> (error + unit) \<times> world" where
  "reboot net this w =
     void (request net this ''/rci/system/reboot'' (with_method ''POST'') (retryCount this) w)"

text \<open>The three binary transfers call \<open>fetch\<close> themselves: one call, no signal, no retry.\<close>

definition direct_call :: "KeeneticControl \<Rightarrow> string \<Rightarrow> string \<Rightarrow> body option \<Rightarrow> fetch_call" where
  "direct_call this path m b =
     \<lparr> url = getBaseUrl this @ path, call_method = Some m, call_body = b,
       call_headers = getAuthHeader this, signal = None \<rparr>"

definition api_error :: "response \<Rightarrow> error" where
  "api_error r = Error (''API error: '' @ String_int (status r) @ '' '' @ statusText r)"

definition backupConfiguration ::
  "transport \<Rightarrow> KeeneticControl \<Rightarrow> world \<Rightarrow> (error + string) \<times> world" where
  "backupConfiguration net this w =
     (case fetch net (direct_call this ''/rci/system/configuration/export'' ''GET'' None) w of
        (Inl e, w') \<Rightarrow> (Inl e, w')
      | (Inr response, w') \<Rightarrow>
          if \<not> ok response then (Inl (api_error response), w') else (Inr (blob_body response), w'))"

definition restoreConfiguration ::
  "transport \<Rightarrow> KeeneticControl \<Rightarrow> string \<Rightarrow> world \<Rightarrow> (error + unit) \<times> world" where
  "restoreConfiguration net this configFile w =
     (case fetch net (direct_call this ''/rci/system/configuration/import'' ''POST''
                        (Some (FormData [(''file'', configFile)]))) w of
        (Inl e, w') \<Rightarrow> (Inl e, w')
      | (Inr response, w') \<Rightarrow>
          if \<not> ok response then (Inl (api_error response), w') else (Inr (), w'))"

definition updateFirmware ::
  "transport \<Rightarrow> KeeneticControl \<Rightarrow> string \<Rightarrow> world \<Rightarrow> (error + unit) \<times> world" where
  "updateFirmware net this firmwareFile w =
     (case fetch net (direct_call this ''/rci/system/firmware/update'' ''POST''
                        (Some (FormData [(''file'', firmwareFile)]))) w of
        (Inl e, w') \<Rightarrow> (Inl e, w')
      | (Inr response, w') \<Rightarrow>
          if \<not> ok response then (Inl (api_error response), w') else (Inr (), w'))"

subsection \<open>Aggregate export\<close>

text \<open>
  \<open>Promise.all\<close> fulfils with the values of its promises, in their order, once all are
  fulfilled, and rejects with the reason of the promise that rejects first. Which one
  rejects first is the scheduler's choice: \<open>settle i\<close> is the time at which promise \<open>i\<close>
  settles.
\<close>

fun first_rejection :: "(nat \<times> (error + 'a)) list \<Rightarrow> (nat \<times> error) option" where
  "first_rejection [] = None"
| "first_rejection ((t, Inr v) # ps) = first_rejection ps"
| "first_rejection ((t, Inl e) # ps) =
     (case first_rejection ps of
        None \<Rightarrow> Some (t, e)
      | Some (t', e') \<Rightarrow> if t' < t then Some (t', e') else Some (t, e))"

fun fulfilled :: "(error + 'a) list \<Rightarrow> 'a list" where
  "fulfilled [] = []"
| "fulfilled (Inr v # rs) = v # fulfilled rs"
| "fulfilled (Inl e # rs) = fulfilled rs"

definition Promise_all :: "(nat \<Rightarrow> nat) \<Rightarrow> (error + 'a) list \<Rightarrow> error + 'a list" where
  "Promise_all settle rs =
     (case first_rejection (zip (map settle [0..<length rs]) rs) of
        Some (t, e) \<Rightarrow> Inl e
      | None \<Rightarrow> Inr (fulfilled rs))"

definition item :: "json list \<Rightarrow> nat \<Rightarrow> json" where
  \<comment> \<open>an element of an array destructuring: \<open>undefined\<close> beyond the end\<close>
  "item vs i = (if i < length vs then vs ! i else JUndefined)"

text \<open>
  The nine reads run concurrently. Their URLs differ and the transport answers a call by
  its URL and the number of earlier calls to that URL, so each read gets the answers it
  would get alone; the model runs them one after the other, and the order of the calls of
  different reads in the world's list is that of the model, not of the scheduler.
\<close>

definition getFullConfiguration ::
  "transport \<Rightarrow> KeeneticControl \<Rightarrow> (nat \<Rightarrow> nat) \<Rightarrow> world \<Rightarrow> (error + json) \<times> world" where
  "getFullConfiguration net this settle w =
     (let (system, w1) = getSystemInfo net this w;
          (interfaces, w2) = getInterfaces net this w1;
          (wifi, w3) = getWifiNetworks net this w2;
          (clients, w4) = getConnectedClients net this w3;
          (vpn, w5) = getVpnConnections net this w4;
          (usb, w6) = getUsbDevices net this w5;
          (firewall, w7) = getFirewallRules net this w6;
          (dns, w8) = getDnsSettings net this w7;
          (dhcp, w9) = getDhcpServers net this w8
      in case Promise_all settle [system, interfaces, wifi, clients, vpn, usb, firewall, dns, dhcp] of
           Inl e \<Rightarrow> (Inl e, w9)
         | Inr vs \<Rightarrow>
             (Inr (JObject
                [(''system'', item vs 0),
                 (''interfaces'', item vs 1),
                 (''wifi'', item vs 2),
                 (''clients'', item vs 3),
                 (''vpn'', item vs 4),
                 (''usb'', item vs 5),
                 (''firewall'', JObject
                    [(''enabled'', JBool True),
                     (''defaultPolicy'', JString ''drop''),
                     (''rules'', item vs 6)]),
                 (''dns'', item vs 7),
                 (''dhcp'', item vs 8)]), w9))"

definition exportAsYaml ::
  "transport \<Rightarrow> KeeneticControl \<Rightarrow> (nat \<Rightarrow> nat) \<Rightarrow> world \<Rightarrow> (error + string) \<times> world" where
  "exportAsYaml net this settle w =
     (case getFullConfiguration net this settle w of
        (Inl e, w') \<Rightarrow> (Inl e, w')
      | (Inr config, w') \<Rightarrow> (Inr (jsonToYaml config 0), w'))"

definition exportAsZud ::
  "transport \<Rightarrow> KeeneticControl \<Rightarrow> world \<Rightarrow> (error + string) \<times> world" where
  "exportAsZud net this w = backupConfiguration net this w"

subsection \<open>The singleton accessor\<close>

text \<open>
  An instance is an object: a reference (the number of the allocation that made it) and
  its fields. Two instances are the same object when their references are equal. The
  module's state is the variable \<open>keeneticControlInstance\<close> and the allocation counter.
\<close>

record client =
  client_ref :: nat
  client_state :: KeeneticControl

record module_state =
  keeneticControlInstance :: "client option"
  allocated :: nat

definition module_state0 :: module_state where
  \<comment> \<open>the state after the module is loaded: \<open>let keeneticControlInstance = null\<close>\<close>
  "module_state0 = \<lparr> keeneticControlInstance = None, allocated = 0 \<rparr>"

definition new_KeeneticControl :: "KeeneticControlOptions \<Rightarrow> module_state \<Rightarrow> client \<times> module_state" where
  "new_KeeneticControl options s =
     (\<lparr> client_ref = allocated s, client_state = constructor options \<rparr>, s\<lparr>allocated := Suc (allocated s)\<rparr>)"

definition getKeeneticControl ::
  "KeeneticControlOptions option \<Rightarrow> module_state \<Rightarrow> (error + client) \<times> module_state" where
  "getKeeneticControl options s =
     (case (keeneticControlInstance s, options) of
        (None, Some opts) \<Rightarrow>
          (let (i, s') = new_KeeneticControl opts s
           in (Inr i, s'\<lparr>keeneticControlInstance := Some i\<rparr>))
      | (None, None) \<Rightarrow>
          (Inl (Error ''KeeneticControl not initialized. Provide options for first call.''), s)
      | (Some i, _) \<Rightarrow> (Inr i, s))"

definition initKeeneticControl ::
  "KeeneticControlOptions \<Rightarrow> module_state \<Rightarrow> client \<times> module_state" where
  "initKeeneticControl options s =
     (let (i, s') = new_KeeneticControl options s
      in (i, s'\<lparr>keeneticControlInstance := Some i\<rparr>))"

subsection \<open>Vocabulary of the properties\<close>

text \<open>
  What the \<open>try\<close> block makes of an answer of the transport: a rejection, a status
  outside 200..299 and a body that does not parse are failures; a 2xx answer whose body
  parses is the parsed value.
\<close>

definition outcome :: "error + response \<Rightarrow> error + json" where
  "outcome r = (case r of
      Inl e \<Rightarrow> Inl e
    | Inr response \<Rightarrow>
        if \<not> ok response
          then Inl (Error (''API error: '' @ String_int (status response) @ '' ''
                           @ statusText response))
        else json_body response)"

definition failed :: "error + response \<Rightarrow> bool" where
  "failed r = isl (outcome r)"

definition answer ::
  "transport \<Rightarrow> KeeneticControl \<Rightarrow> string \<Rightarrow> RequestInit \<Rightarrow> world \<Rightarrow> nat \<Rightarrow> error + response" where
  \<comment> \<open>the transport's answer to the \<open>i\<close>-th next call of the pipeline, counted from 0\<close>
  "answer net this endpoint options w i =
     (let c = request_call this endpoint options
      in net (count_url (url c) (calls w) + i) c)"

definition issued :: "world \<Rightarrow> world \<Rightarrow> fetch_call list" where
  \<comment> \<open>the calls of \<open>fetch\<close> made between the world \<open>w\<close> and the later world \<open>w'\<close>\<close>
  "issued w w' = drop (length (calls w)) (calls w')"

definition requests_of :: "world \<Rightarrow> world \<Rightarrow> (string \<times> string \<times> body option) set" where
  \<comment> \<open>method, URL and body of the calls made between \<open>w\<close> and \<open>w'\<close>\<close>
  "requests_of w w' = set (map (\<lambda>c. (effective_method c, url c, call_body c)) (issued w w'))"




definition reads :: "transport \<Rightarrow> KeeneticControl \<Rightarrow> world \<Rightarrow> (error + json) list" where
  \<comment> \<open>the results of the nine reads of the aggregate, each run on its own from \<open>w\<close>\<close>
  "reads net this w =
     [fst (getSystemInfo net this w), fst (getInterfaces net this w),
      fst (getWifiNetworks net this w), fst (getConnectedClients net this w),
      fst (getVpnConnections net this w), fst (getUsbDevices net this w),
      fst (getFirewallRules net this w), fst (getDnsSettings net this w),
      fst (getDhcpServers net this w)]"

fun get_all :: "KeeneticControlOptions option list \<Rightarrow> module_state \<Rightarrow> (error + client) list" where
  \<comment> \<open>the results of a sequence of calls of \<open>getKeeneticControl\<close>\<close>
  "get_all [] s = []"
| "get_all (options # rest) s =
     (case getKeeneticControl options s of (r, s') \<Rightarrow> r # get_all rest s')"

text \<open>The stub router of the examples.\<close>

definition admin :: KeeneticCredentials where
  "admin = \<lparr> host = ''192.168.1.1'', username = ''admin'', password = ''admin'',
             port = None, secure = None \<rparr>"

definition default_options :: KeeneticControlOptions where
  "default_options = \<lparr> credentials = admin, opt_timeout = None, opt_retryCount = None,
                       opt_retryDelay = None, opt_debug = None \<rparr>"

definition status_ok :: response where
  "status_ok = \<lparr> status = 200, statusText = ''OK'',
                 json_body = Inr (JObject [(''status'', JString ''ok'')]), blob_body = [] \<rparr>"

definition server_error :: response where
  "server_error = \<lparr> status = 500, statusText = ''Internal Server Error'',
                    json_body = Inl (SyntaxError ''Unexpected end of JSON input''),
                    blob_body = [] \<rparr>"

definition no_content :: response where
  \<comment> \<open>a 2xx answer with an empty body, which is not JSON\<close>
  "no_content = \<lparr> status = 204, statusText = ''No Content'',
                  json_body = Inl (SyntaxError ''Unexpected end of JSON input''),
                  blob_body = [] \<rparr>"

definition flaky :: "nat \<Rightarrow> transport" where
  \<comment> \<open>fails \<open>k\<close> times on every URL, then succeeds\<close>
  "flaky k i c = (if i < k then Inr server_error else Inr status_ok)"

definition usb_down :: transport where
  \<comment> \<open>the stub router with a failing USB listing\<close>
  "usb_down i c =
     (if url c = ''https://192.168.1.1/rci/show/usb'' then Inr server_error else Inr status_ok)"

datatype module_call = Get "KeeneticControlOptions option" | Init KeeneticControlOptions

fun run_calls :: "module_call list \<Rightarrow> module_state \<Rightarrow> module_state" where
  \<comment> \<open>the module's state after a sequence of calls of its two functions\<close>
  "run_calls [] s = s"
| "run_calls (Get options # rest) s = run_calls rest (snd (getKeeneticControl options s))"
| "run_calls (Init options # rest) s = run_calls rest (snd (initKeeneticControl options s))"

definition fresh_counter :: "module_state \<Rightarrow> bool" where
  \<comment> \<open>the reference of the current instance was allocated before the next one\<close>
  "fresh_counter s =
     (case keeneticControlInstance s of None \<Rightarrow> True | Some i \<Rightarrow> client_ref i < allocated s)"


section \<open>Properties\<close>

subsection \<open>Decimal numerals\<close>

lemma digit_val_digit: "d < 10 \<Longrightarrow> digit_val (digit d) = d"
proof -
  assume "d < 10"
  then have "d \<in> {0,1,2,3,4,5,6,7,8,9}" by auto
  then show ?thesis by (auto simp: digit_def digit_val_def)
qed

lemma digit_not_minus: "d < 10 \<Longrightarrow> digit d \<noteq> CHR ''-''"
proof -
  assume "d < 10"
  then have "d \<in> {0,1,2,3,4,5,6,7,8,9}" by auto
  then show ?thesis by (auto simp: digit_def)
qed



lemma undigits_snoc: "undigits (s @ [c]) = 10 * undigits s + digit_val c"
  by (simp add: undigits_def)

lemma undigits_digits: "undigits (digits n) = n"
proof (induction n rule: digits.induct)
  case (1 n)
  show ?case
  proof (cases "n < 10")
    case True
    then show ?thesis by (simp add: digits.simps [of n] undigits_def digit_val_digit)
  next
    case False
    with 1 show ?thesis
      by (simp add: digits.simps [of n] undigits_snoc digit_val_digit)
  qed
qed

lemma digits_nonempty: "digits n \<noteq> []"
  by (subst digits.simps) simp

lemma hd_digits_not_minus: "hd (digits n) \<noteq> CHR ''-''"
proof (induction n rule: digits.induct)
  case (1 n)
  show ?case
  proof (cases "n < 10")
    case True
    then show ?thesis by (simp add: digits.simps [of n] digit_not_minus)
  next
    case False
    with 1 show ?thesis
      by (simp add: digits.simps [of n] digits_nonempty)
  qed
qed

lemma parse_int_String_int: "parse_int (String_int n) = n"
proof (cases "n < 0")
  case True
  then show ?thesis by (simp add: parse_int_def String_int_def undigits_digits)
next
  case False
  obtain c cs where eq: "digits (nat n) = c # cs"
    using digits_nonempty [of "nat n"] by (cases "digits (nat n)") auto
  have "c \<noteq> CHR ''-''"
    using hd_digits_not_minus [of "nat n"] eq by simp
  moreover have "undigits (c # cs) = nat n"
    using undigits_digits [of "nat n"] eq by simp
  ultimately show ?thesis
    using False eq by (simp add: parse_int_def String_int_def)
qed

lemma String_int_inject: "(String_int a = String_int b) = (a = b)"
  by (metis parse_int_String_int)

subsection \<open>The request pipeline, step by step\<close>

lemma log_calls [simp]: "calls (log this args w) = calls w"
  by (simp add: log_def)

lemma log_delays [simp]: "delays (log this args w) = delays w"
  by (simp add: log_def)

lemma sleep_calls [simp]: "calls (sleep ms w) = calls w"
  by (simp add: sleep_def)

lemma fst_attempt:
  "fst (attempt net this endpoint options w) = outcome (answer net this endpoint options w 0)"
  by (simp add: attempt_def outcome_def answer_def fetch_def Let_def split: sum.splits)

lemma calls_attempt:
  "calls (snd (attempt net this endpoint options w)) = calls w @ [request_call this endpoint options]"
  by (simp add: attempt_def fetch_def Let_def split: sum.splits)

lemma delays_attempt:
  "delays (snd (attempt net this endpoint options w)) = delays w"
  by (simp add: attempt_def fetch_def Let_def split: sum.splits)

lemma request_success:
  assumes "fst (attempt net this endpoint options w) = Inr v"
  shows "request net this endpoint options retries w = (Inr v, snd (attempt net this endpoint options w))"
proof -
  obtain r w' where a: "attempt net this endpoint options w = (r, w')"
    by (cases "attempt net this endpoint options w")
  show ?thesis
    using assms by (subst request.simps) (simp add: a)
qed

lemma request_retry_step:
  assumes "fst (attempt net this endpoint options w) = Inl e" and "0 < retries"
  shows "request net this endpoint options retries w =
         request net this endpoint options (retries - 1)
           (sleep (retryDelay this)
              (log this [''Request failed, retrying ('' @ String_int retries @ '' retries left)...'',
                         error_text e] (snd (attempt net this endpoint options w))))"
proof -
  obtain r w' where a: "attempt net this endpoint options w = (r, w')"
    by (cases "attempt net this endpoint options w")
  show ?thesis
    using assms by (subst request.simps) (simp add: a)
qed

lemma request_give_up:
  assumes "fst (attempt net this endpoint options w) = Inl e" and "\<not> 0 < retries"
  shows "request net this endpoint options retries w =
         (Inl e, log this [''Request failed after all retries'', error_text e]
                   (snd (attempt net this endpoint options w)))"
proof -
  obtain r w' where a: "attempt net this endpoint options w = (r, w')"
    by (cases "attempt net this endpoint options w")
  show ?thesis
    using assms by (subst request.simps) (simp add: a)
qed

lemma answer_shift:
  assumes "calls w' = calls w @ [request_call this endpoint options]"
  shows "answer net this endpoint options w' i = answer net this endpoint options w (Suc i)"
  using assms by (simp add: answer_def count_url_def Let_def)

lemma request_calls_replicate:
  "\<exists>m. calls (snd (request net this endpoint options retries w))
        = calls w @ replicate (Suc m) (request_call this endpoint options)"
proof (induction net this endpoint options retries w rule: request.induct)
  case (1 net this endpoint options retries w)
  let ?c = "request_call this endpoint options"
  let ?a = "attempt net this endpoint options w"
  show ?case
  proof (cases "fst ?a")
    case (Inr v)
    then have "calls (snd (request net this endpoint options retries w)) = calls w @ replicate (Suc 0) ?c"
      by (simp add: request_success calls_attempt)
    then show ?thesis by blast
  next
    case (Inl e)
    show ?thesis
    proof (cases "0 < retries")
      case False
      with Inl have "calls (snd (request net this endpoint options retries w)) = calls w @ replicate (Suc 0) ?c"
        by (simp add: request_give_up calls_attempt)
      then show ?thesis by blast
    next
      case True
      let ?w' = "sleep (retryDelay this)
              (log this [''Request failed, retrying ('' @ String_int retries @ '' retries left)...'',
                         error_text e] (snd ?a))"
      have "(Inl e, snd ?a) = ?a" using Inl by (cases ?a) simp
      from 1 [OF this refl True] obtain m where
        m: "calls (snd (request net this endpoint options (retries - 1) ?w'))
              = calls ?w' @ replicate (Suc m) ?c"
        by blast
      have "calls (snd (request net this endpoint options retries w))
              = calls w @ replicate (Suc (Suc m)) ?c"
        using Inl True m by (simp add: request_retry_step calls_attempt)
      then show ?thesis by blast
    qed
  qed
qed

lemma failed_outcome: "failed r \<Longrightarrow> \<exists>e. outcome r = Inl e"
  by (cases "outcome r") (simp_all add: failed_def)

lemma not_failed_outcome: "\<not> failed r \<Longrightarrow> \<exists>v. outcome r = Inr v"
  by (cases "outcome r") (simp_all add: failed_def)

lemma answer_after_attempt:
  "answer net this endpoint options
     (sleep d (log this msg (snd (attempt net this endpoint options w)))) i
   = answer net this endpoint options w (Suc i)"
  by (rule answer_shift) (simp add: calls_attempt)

lemma calls_after_attempt:
  "calls (sleep d (log this msg (snd (attempt net this endpoint options w))))
   = calls w @ [request_call this endpoint options]"
  by (simp add: calls_attempt)

lemma request_succeeds_after:
  assumes "\<forall>i<k. failed (answer net this endpoint options w i)"
    and "outcome (answer net this endpoint options w k) = Inr v"
    and "k \<le> nat retries"
  shows "fst (request net this endpoint options retries w) = Inr v \<and>
         calls (snd (request net this endpoint options retries w))
           = calls w @ replicate (Suc k) (request_call this endpoint options)"
  using assms
proof (induction k arbitrary: retries w)
  case 0
  then have "fst (attempt net this endpoint options w) = Inr v"
    by (simp add: fst_attempt)
  then show ?case
    by (simp add: request_success calls_attempt)
next
  case (Suc k)
  let ?c = "request_call this endpoint options"
  let ?a = "attempt net this endpoint options w"
  from Suc.prems(1) have "failed (answer net this endpoint options w 0)" by simp
  then obtain e where e: "fst ?a = Inl e"
    using failed_outcome by (auto simp: fst_attempt)
  let ?w' = "sleep (retryDelay this)
              (log this [''Request failed, retrying ('' @ String_int retries @ '' retries left)...'',
                         error_text e] (snd ?a))"
  have pos: "0 < retries" using Suc.prems(3) by simp
  have step: "request net this endpoint options retries w
                = request net this endpoint options (retries - 1) ?w'"
    using e pos by (rule request_retry_step)
  have cw: "calls ?w' = calls w @ [?c]"
    by (rule calls_after_attempt)
  have shift: "\<And>i. answer net this endpoint options ?w' i = answer net this endpoint options w (Suc i)"
    by (rule answer_after_attempt)
  have "fst (request net this endpoint options (retries - 1) ?w') = Inr v \<and>
        calls (snd (request net this endpoint options (retries - 1) ?w'))
          = calls ?w' @ replicate (Suc k) ?c"
  proof (rule Suc.IH)
    show "\<forall>i<k. failed (answer net this endpoint options ?w' i)"
      using Suc.prems(1) unfolding shift by simp
    show "outcome (answer net this endpoint options ?w' k) = Inr v"
      using Suc.prems(2) unfolding shift by simp
    show "k \<le> nat (retries - 1)" using Suc.prems(3) by simp
  qed
  then show ?case
    unfolding step cw by simp
qed

lemma request_exhausts:
  assumes "\<forall>i\<le>nat retries. failed (answer net this endpoint options w i)"
  shows "outcome (answer net this endpoint options w (nat retries)) = fst (request net this endpoint options retries w) \<and>
         calls (snd (request net this endpoint options retries w))
           = calls w @ replicate (Suc (nat retries)) (request_call this endpoint options)"
  using assms
proof (induction "nat retries" arbitrary: retries w)
  case 0
  let ?a = "attempt net this endpoint options w"
  from 0 have f: "failed (answer net this endpoint options w 0)" by simp
  then obtain e where e: "fst ?a = Inl e"
    using failed_outcome by (auto simp: fst_attempt)
  have "\<not> 0 < retries" using 0 by simp
  with e have "request net this endpoint options retries w =
         (Inl e, log this [''Request failed after all retries'', error_text e] (snd ?a))"
    by (rule request_give_up)
  then show ?case
    using e 0(1) by (simp add: calls_attempt fst_attempt [symmetric])
next
  case (Suc m)
  let ?c = "request_call this endpoint options"
  let ?a = "attempt net this endpoint options w"
  from Suc.prems have "failed (answer net this endpoint options w 0)" by simp
  then obtain e where e: "fst ?a = Inl e"
    using failed_outcome by (auto simp: fst_attempt)
  let ?w' = "sleep (retryDelay this)
              (log this [''Request failed, retrying ('' @ String_int retries @ '' retries left)...'',
                         error_text e] (snd ?a))"
  have pos: "0 < retries" using Suc.hyps(2) by simp
  have m: "m = nat (retries - 1)" using Suc.hyps(2) by simp
  have step: "request net this endpoint options retries w
                = request net this endpoint options (retries - 1) ?w'"
    using e pos by (rule request_retry_step)
  have cw: "calls ?w' = calls w @ [?c]"
    by (rule calls_after_attempt)
  have shift: "\<And>i. answer net this endpoint options ?w' i = answer net this endpoint options w (Suc i)"
    by (rule answer_after_attempt)
  have "outcome (answer net this endpoint options ?w' (nat (retries - 1)))
          = fst (request net this endpoint options (retries - 1) ?w') \<and>
        calls (snd (request net this endpoint options (retries - 1) ?w'))
          = calls ?w' @ replicate (Suc (nat (retries - 1))) ?c"
  proof (rule Suc.hyps(1) [OF m])
    show "\<forall>i\<le>nat (retries - 1). failed (answer net this endpoint options ?w' i)"
      using Suc.prems Suc.hyps(2) unfolding shift by simp
  qed
  moreover have "Suc (nat (retries - 1)) = nat retries" using pos by simp
  ultimately show ?case
    unfolding step cw shift by simp
qed

lemma request_result_cong:
  assumes "count_url (url (request_call this endpoint options)) (calls w1)
             = count_url (url (request_call this endpoint options)) (calls w2)"
  shows "fst (request net this endpoint options retries w1)
           = fst (request net this endpoint options retries w2)"
  using assms
proof (induction net this endpoint options retries w1 arbitrary: w2 rule: request.induct)
  case (1 net this endpoint options retries w1)
  let ?c = "request_call this endpoint options"
  let ?a1 = "attempt net this endpoint options w1"
  let ?a2 = "attempt net this endpoint options w2"
  have same: "fst ?a1 = fst ?a2"
    using "1.prems" by (simp add: fst_attempt answer_def Let_def)
  show ?case
  proof (cases "fst ?a1")
    case (Inr v)
    then have "fst ?a2 = Inr v" using same by simp
    then show ?thesis
      by (simp add: request_success [OF Inr] request_success)
  next
    case (Inl e)
    then have e2: "fst ?a2 = Inl e" using same by simp
    show ?thesis
    proof (cases "0 < retries")
      case False
      then show ?thesis
        by (simp add: request_give_up [OF Inl] request_give_up [OF e2])
    next
      case True
      let ?msg = "[''Request failed, retrying ('' @ String_int retries @ '' retries left)...'',
                         error_text e]"
      let ?w1' = "sleep (retryDelay this) (log this ?msg (snd ?a1))"
      let ?w2' = "sleep (retryDelay this) (log this ?msg (snd ?a2))"
      have a: "(Inl e, snd ?a1) = ?a1" using Inl by (cases ?a1) simp
      have "count_url (url ?c) (calls ?w1') = count_url (url ?c) (calls ?w2')"
        using "1.prems" unfolding calls_after_attempt by (simp add: count_url_def)
      from "1.IH" [OF a refl True this]
      have "fst (request net this endpoint options (retries - 1) ?w1')
              = fst (request net this endpoint options (retries - 1) ?w2')" .
      then show ?thesis
        unfolding request_retry_step [OF Inl True] request_retry_step [OF e2 True] .
    qed
  qed
qed

lemma issued_append: "calls w' = calls w @ cs \<Longrightarrow> issued w w' = cs"
  by (simp add: issued_def)

subsection \<open>Retry\<close>

text \<open>
  C1, as stated: after \<open>k\<close> failures and a success of the transport, \<open>n \<ge> k\<close> retries
  give a success after \<open>k + 1\<close> calls, and \<open>n < k\<close> retries a failure after \<open>n + 1\<close>
  calls. A transport that succeeds with a 2xx answer whose body is not JSON is not a
  success for the pipeline: after one 500 and then 204 answers, three retries end in a
  failure after four calls. And a negative \<open>n\<close> still makes the first attempt: with no
  failure at all and \<open>n = -1\<close> the call succeeds after one call.
\<close>

theorem request_retry_as_stated_fails:
  "\<not> ok server_error \<and> ok no_content \<and>
   isl (fst (request (\<lambda>i c. if i < 1 then Inr server_error else Inr no_content)
               (constructor default_options) ''/rci/system/reboot'' (with_method ''POST'') 3 world0)) \<and>
   length (issued world0
     (snd (request (\<lambda>i c. if i < 1 then Inr server_error else Inr no_content)
             (constructor default_options) ''/rci/system/reboot'' (with_method ''POST'') 3 world0))) = 4 \<and>
   \<not> isl (fst (request (flaky 0) (constructor default_options) ''/rci/system/status''
                   no_options (- 1) world0)) \<and>
   length (issued world0
     (snd (request (flaky 0) (constructor default_options) ''/rci/system/status''
             no_options (- 1) world0))) = 1"
proof -
  let ?net = "\<lambda>(i::nat) (c::fetch_call).
                if i < 1 then Inr server_error else (Inr no_content :: error + response)"
  let ?cl = "constructor default_options"
  let ?r = "request ?net ?cl ''/rci/system/reboot'' (with_method ''POST'') 3 world0"
  let ?s = "request (flaky 0) ?cl ''/rci/system/status'' no_options (- 1) world0"
  have f: "\<forall>i\<le>nat 3. failed (answer ?net ?cl ''/rci/system/reboot'' (with_method ''POST'') world0 i)"
    by (simp add: answer_def Let_def failed_def outcome_def ok_def no_content_def server_error_def)
  then have "outcome (answer ?net ?cl ''/rci/system/reboot'' (with_method ''POST'') world0 (nat 3))
               = fst ?r"
    and c: "calls (snd ?r) = calls world0 @ replicate (Suc (nat 3))
              (request_call ?cl ''/rci/system/reboot'' (with_method ''POST''))"
    using request_exhausts by blast+
  moreover have "failed (answer ?net ?cl ''/rci/system/reboot'' (with_method ''POST'') world0 (nat 3))"
    using f by blast
  ultimately have 1: "isl (fst ?r)"
    by (simp add: failed_def)
  have 2: "length (issued world0 (snd ?r)) = 4"
    using c by (simp add: issued_append)
  have "outcome (answer (flaky 0) ?cl ''/rci/system/status'' no_options world0 0)
          = Inr (JObject [(''status'', JString ''ok'')])"
    by (simp add: answer_def Let_def flaky_def outcome_def ok_def status_ok_def)
  then have "fst ?s = Inr (JObject [(''status'', JString ''ok'')]) \<and>
      calls (snd ?s) = calls world0 @ replicate (Suc 0) (request_call ?cl ''/rci/system/status'' no_options)"
    by (intro request_succeeds_after) simp_all
  then have 3: "\<not> isl (fst ?s)" and 4: "length (issued world0 (snd ?s)) = 1"
    by (simp_all add: issued_append)
  from 1 2 3 4 show ?thesis
    by (simp add: ok_def server_error_def no_content_def)
qed

text \<open>
  C1, amended: for every endpoint and options, if the transport fails exactly \<open>k\<close> times
  (a rejection, a status outside 2xx, or a body that is not JSON) and then answers with a
  2xx status and a body that parses as JSON, a call of \<open>request\<close> with \<open>n\<close> retries, of
  which \<open>max n 0\<close> are made at most, succeeds with the parsed value when \<open>max n 0 \<ge> k\<close> and
  invokes the transport exactly \<open>k + 1\<close> times; when \<open>max n 0 < k\<close> it fails and invokes
  the transport exactly \<open>max n 0 + 1\<close> times.
\<close>

theorem request_retry_property:
  assumes "\<forall>i<k. failed (answer net this endpoint options w i)"
    and "answer net this endpoint options w k = Inr response"
    and "ok response"
    and "json_body response = Inr v"
  shows "(k \<le> nat n \<longrightarrow>
            fst (request net this endpoint options n w) = Inr v \<and>
            length (issued w (snd (request net this endpoint options n w))) = k + 1) \<and>
         (nat n < k \<longrightarrow>
            isl (fst (request net this endpoint options n w)) \<and>
            length (issued w (snd (request net this endpoint options n w))) = nat n + 1)"
proof (intro conjI impI)
  assume le: "k \<le> nat n"
  have "outcome (answer net this endpoint options w k) = Inr v"
    using assms(2-4) by (simp add: outcome_def)
  then have r: "fst (request net this endpoint options n w) = Inr v \<and>
        calls (snd (request net this endpoint options n w))
          = calls w @ replicate (Suc k) (request_call this endpoint options)"
    using assms(1) le by (intro request_succeeds_after)
  from r show "fst (request net this endpoint options n w) = Inr v" by simp
  from r show "length (issued w (snd (request net this endpoint options n w))) = k + 1"
    by (simp add: issued_append)
next
  assume less: "nat n < k"
  then have all: "\<forall>i\<le>nat n. failed (answer net this endpoint options w i)"
    using assms(1) by auto
  then have r: "outcome (answer net this endpoint options w (nat n))
                  = fst (request net this endpoint options n w) \<and>
        calls (snd (request net this endpoint options n w))
          = calls w @ replicate (Suc (nat n)) (request_call this endpoint options)"
    by (rule request_exhausts)
  have "failed (answer net this endpoint options w (nat n))"
    using all by blast
  with r show "isl (fst (request net this endpoint options n w))"
    by (simp add: failed_def)
  from r show "length (issued w (snd (request net this endpoint options n w))) = nat n + 1"
    by (simp add: issued_append)
qed

lemma flaky_failed: "failed (flaky k i c) = (i < k)"
  by (simp add: flaky_def failed_def outcome_def ok_def server_error_def status_ok_def)

theorem request_retry_property_witness:
  "fst (request (flaky 2) (constructor default_options) ''/rci/system/status'' no_options 3 world0)
     = Inr (JObject [(''status'', JString ''ok'')]) \<and>
   length (issued world0
     (snd (request (flaky 2) (constructor default_options) ''/rci/system/status'' no_options 3 world0))) = 3 \<and>
   isl (fst (request (flaky 2) (constructor default_options) ''/rci/system/status'' no_options 1 world0)) \<and>
   length (issued world0
     (snd (request (flaky 2) (constructor default_options) ''/rci/system/status'' no_options 1 world0))) = 2 \<and>
   isl (fst (request (flaky 2) (constructor default_options) ''/rci/system/status'' no_options (- 5) world0)) \<and>
   length (issued world0
     (snd (request (flaky 2) (constructor default_options) ''/rci/system/status'' no_options (- 5) world0))) = 1"
proof -
  have f: "\<forall>i<2. failed (answer (flaky 2) (constructor default_options) ''/rci/system/status'' no_options world0 i)"
    by (simp add: answer_def Let_def flaky_failed world0_def count_url_def)
  have s: "answer (flaky 2) (constructor default_options) ''/rci/system/status'' no_options world0 2
             = Inr status_ok"
    by (simp add: answer_def Let_def flaky_def world0_def count_url_def)
  have o: "ok status_ok" by (simp add: ok_def status_ok_def)
  have j: "json_body status_ok = Inr (JObject [(''status'', JString ''ok'')])"
    by (simp add: status_ok_def)
  show ?thesis
    using request_retry_property [OF f s o j, of 3] request_retry_property [OF f s o j, of 1]
      request_retry_property [OF f s o j, of "- 5"]
    by simp
qed

lemma effective_method_request_call:
  "effective_method (request_call this endpoint options)
     = (case req_method options of None \<Rightarrow> ''GET'' | Some m \<Rightarrow> m)"
  by (simp add: effective_method_def request_call_def)

lemma requests_of_request:
  "requests_of w (snd (request net this endpoint options retries w))
     = {(case req_method options of None \<Rightarrow> ''GET'' | Some m \<Rightarrow> m,
         getBaseUrl this @ endpoint, req_body options)}"
proof -
  obtain m where "calls (snd (request net this endpoint options retries w))
        = calls w @ replicate (Suc m) (request_call this endpoint options)"
    using request_calls_replicate by blast
  then have "issued w (snd (request net this endpoint options retries w))
        = replicate (Suc m) (request_call this endpoint options)"
    by (rule issued_append)
  then show ?thesis
    by (auto simp: requests_of_def effective_method_def request_call_def)
qed

subsection \<open>A successful answer is not retried\<close>

text \<open>
  C2, as stated: a call that receives a 2xx answer is not issued again, whatever the
  body. The code reads the body inside the \<open>try\<close> block, so a 2xx answer whose body is
  not JSON is a failure like any other: a router that answers the reboot with
  \<open>204 No Content\<close> is asked to reboot four times.
\<close>

theorem reboot_reissued_after_2xx:
  "ok no_content \<and>
   answer (\<lambda>i c. Inr no_content) (constructor default_options) ''/rci/system/reboot''
     (with_method ''POST'') world0 0 = Inr no_content \<and>
   length (issued world0
     (snd (reboot (\<lambda>i c. Inr no_content) (constructor default_options) world0))) = 4"
proof -
  let ?net = "\<lambda>(i::nat) (c::fetch_call). (Inr no_content :: error + response)"
  let ?cl = "constructor default_options"
  have "\<forall>i\<le>nat 3. failed (answer ?net ?cl ''/rci/system/reboot'' (with_method ''POST'') world0 i)"
    by (simp add: answer_def Let_def failed_def outcome_def ok_def no_content_def)
  then have "calls (snd (request ?net ?cl ''/rci/system/reboot'' (with_method ''POST'') 3 world0))
               = calls world0 @ replicate (Suc (nat 3))
                   (request_call ?cl ''/rci/system/reboot'' (with_method ''POST''))"
    using request_exhausts by blast
  then have "length (issued world0
       (snd (request ?net ?cl ''/rci/system/reboot'' (with_method ''POST'') 3 world0))) = 4"
    by (simp add: issued_append)
  moreover have "retryCount ?cl = 3"
    by (simp add: constructor_def default_options_def or_number_def)
  moreover have "\<And>rw. snd (void rw) = snd rw"
    by (simp add: void_def split: prod.splits sum.splits)
  ultimately show ?thesis
    by (simp add: reboot_def ok_def no_content_def answer_def)
qed

text \<open>
  C2, amended: a call that receives a 2xx answer whose body parses as JSON is not issued
  again, whatever the parsed value. The answer may be the first or follow \<open>k\<close> failures
  that the retries cover; the transport is then invoked \<open>k + 1\<close> times and no more.
\<close>

theorem request_no_retry_after_parsed_2xx:
  assumes "\<forall>i<k. failed (answer net this endpoint options w i)"
    and "k \<le> nat retries"
    and "answer net this endpoint options w k = Inr response"
    and "ok response"
    and "json_body response = Inr v"
  shows "fst (request net this endpoint options retries w) = Inr v \<and>
         issued w (snd (request net this endpoint options retries w))
           = replicate (k + 1) (request_call this endpoint options)"
proof -
  have "outcome (answer net this endpoint options w k) = Inr v"
    using assms(3-5) by (simp add: outcome_def)
  with assms(1) have "fst (request net this endpoint options retries w) = Inr v \<and>
         calls (snd (request net this endpoint options retries w))
           = calls w @ replicate (Suc k) (request_call this endpoint options)"
    using assms(2) by (intro request_succeeds_after)
  then show ?thesis
    by (simp add: issued_append)
qed

theorem request_no_retry_after_parsed_2xx_witness:
  "fst (request (flaky 0) (constructor default_options) ''/rci/system/status'' no_options 3 world0)
     = Inr (JObject [(''status'', JString ''ok'')]) \<and>
   issued world0
     (snd (request (flaky 0) (constructor default_options) ''/rci/system/status'' no_options 3 world0))
     = [request_call (constructor default_options) ''/rci/system/status'' no_options]"
proof -
  have a: "answer (flaky 0) (constructor default_options) ''/rci/system/status'' no_options world0 0
             = Inr status_ok"
    by (simp add: answer_def Let_def flaky_def)
  have "\<forall>i<0. failed (answer (flaky 0) (constructor default_options) ''/rci/system/status''
                          no_options world0 i)"
    by simp
  moreover have "(0::nat) \<le> nat 3" by simp
  moreover have "ok status_ok" by (simp add: ok_def status_ok_def)
  moreover have "json_body status_ok = Inr (JObject [(''status'', JString ''ok'')])"
    by (simp add: status_ok_def)
  ultimately show ?thesis
    using request_no_retry_after_parsed_2xx [OF _ _ a] by simp
qed

subsection \<open>The connectivity probe\<close>


lemma snd_testConnection:
  "snd (testConnection net this w)
     = snd (request net this ''/rci/system/status'' no_options (retryCount this) w)"
  by (simp add: testConnection_def split: prod.splits sum.splits)





subsection \<open>Aggregate export\<close>

lemma url_request_call [simp]: "url (request_call this endpoint options) = getBaseUrl this @ endpoint"
  by (simp add: request_call_def)

lemma count_url_append: "count_url u (cs @ ds) = count_url u cs + count_url u ds"
  by (simp add: count_url_def)

lemma count_url_replicate_other: "url c \<noteq> u \<Longrightarrow> count_url u (replicate m c) = 0"
  by (simp add: count_url_def)

lemma count_after_request:
  assumes "endpoint \<noteq> e"
  shows "count_url (getBaseUrl this @ e) (calls (snd (request net this endpoint options n w)))
           = count_url (getBaseUrl this @ e) (calls w)"
proof -
  obtain m where "calls (snd (request net this endpoint options n w))
        = calls w @ replicate (Suc m) (request_call this endpoint options)"
    using request_calls_replicate by blast
  moreover have "url (request_call this endpoint options) \<noteq> getBaseUrl this @ e"
    using assms by simp
  ultimately show ?thesis
    by (simp add: count_url_def)
qed

lemma request_fst_cong:
  assumes "count_url (getBaseUrl this @ e) (calls w1) = count_url (getBaseUrl this @ e) (calls w2)"
  shows "fst (request net this e options n w1) = fst (request net this e options n w2)"
  using assms by (intro request_result_cong) simp

lemma request_issued_urls:
  "\<exists>cs. calls (snd (request net this e options n w)) = calls w @ cs \<and>
        url ` set cs = {getBaseUrl this @ e}"
proof -
  obtain m where "calls (snd (request net this e options n w))
        = calls w @ replicate (Suc m) (request_call this e options)"
    using request_calls_replicate by blast
  moreover have "url ` set (replicate (Suc m) (request_call this e options)) = {getBaseUrl this @ e}"
    by auto
  ultimately show ?thesis by blast
qed

lemma first_rejection_None:
  "(first_rejection ps = None) = (\<not> list_ex (\<lambda>p. isl (snd p)) ps)"
  by (induction ps rule: first_rejection.induct) (auto split: option.splits)

lemma first_rejection_Some:
  "first_rejection ps = Some (t, e) \<Longrightarrow> (t, Inl e) \<in> set ps"
  by (induction ps arbitrary: t e rule: first_rejection.induct)
     (auto split: option.splits if_splits)

lemma list_ex_zip_snd:
  "length ts = length rs \<Longrightarrow> list_ex (\<lambda>p. P (snd p)) (zip ts rs) = list_ex P rs"
  by (induction ts rs rule: list_induct2) auto

lemma fulfilled_map_Inr: "fulfilled (map Inr vs) = vs"
  by (induction vs) auto

lemma Promise_all_rejects:
  "list_ex isl rs \<Longrightarrow> \<exists>e. Promise_all settle rs = Inl e \<and> Inl e \<in> set rs"
proof -
  assume ex: "list_ex isl rs"
  let ?ps = "zip (map settle [0..<length rs]) rs"
  have "list_ex (\<lambda>p. isl (snd p)) ?ps"
    using ex by (simp add: list_ex_zip_snd)
  then obtain t e where te: "first_rejection ?ps = Some (t, e)"
    using first_rejection_None [of ?ps] by (cases "first_rejection ?ps") auto
  then have "(t, Inl e) \<in> set ?ps" by (rule first_rejection_Some)
  then have "Inl e \<in> set rs" by (rule set_zip_rightD)
  with te show ?thesis by (simp add: Promise_all_def)
qed

lemma Promise_all_fulfils: "Promise_all settle (map Inr vs) = Inr vs"
proof -
  let ?rs = "map Inr vs :: (error + 'a) list"
  let ?ps = "zip (map settle [0..<length ?rs]) ?rs"
  have "\<not> list_ex isl ?rs" by (simp add: list_ex_iff)
  then have "\<not> list_ex (\<lambda>p. isl (snd p)) ?ps"
    by (simp add: list_ex_zip_snd)
  then have "first_rejection ?ps = None"
    by (simp add: first_rejection_None)
  then show ?thesis
    by (simp add: Promise_all_def fulfilled_map_Inr)
qed

lemma fst_request_after:
  assumes "endpoint \<noteq> e"
  shows "fst (request net this e options n (snd (request net this endpoint options' n' w)))
           = fst (request net this e options n w)"
  using assms by (intro request_fst_cong count_after_request)

lemmas read_defs =
  getSystemInfo_def getInterfaces_def getWifiNetworks_def getConnectedClients_def
  getVpnConnections_def getUsbDevices_def getFirewallRules_def getDnsSettings_def
  getDhcpServers_def

lemma fst_getFullConfiguration:
  "fst (getFullConfiguration net this settle w) =
     (case Promise_all settle (reads net this w) of
        Inl e \<Rightarrow> Inl e
      | Inr vs \<Rightarrow>
          Inr (JObject
            [(''system'', item vs 0), (''interfaces'', item vs 1), (''wifi'', item vs 2),
             (''clients'', item vs 3), (''vpn'', item vs 4), (''usb'', item vs 5),
             (''firewall'', JObject [(''enabled'', JBool True),
                                     (''defaultPolicy'', JString ''drop''),
                                     (''rules'', item vs 6)]),
             (''dns'', item vs 7), (''dhcp'', item vs 8)]))"
  by (simp add: getFullConfiguration_def reads_def read_defs Let_def case_prod_beta
        fst_request_after split: sum.splits)

lemma snd_getFullConfiguration:
  "snd (getFullConfiguration net this settle w) =
     snd (getDhcpServers net this (snd (getDnsSettings net this (snd (getFirewallRules net this
       (snd (getUsbDevices net this (snd (getVpnConnections net this (snd (getConnectedClients net this
       (snd (getWifiNetworks net this (snd (getInterfaces net this
       (snd (getSystemInfo net this w)))))))))))))))))"
  by (simp add: getFullConfiguration_def Let_def case_prod_beta split: sum.splits)

lemma issued_trans:
  assumes "calls w' = calls w @ cs" and "\<exists>ds. calls w'' = calls w' @ ds \<and> url ` set ds = {u}"
  shows "\<exists>es. calls w'' = calls w @ es \<and> url ` set es = url ` set cs \<union> {u}"
proof -
  from assms(2) obtain ds where "calls w'' = calls w' @ ds" and "url ` set ds = {u}" by blast
  then have "calls w'' = calls w @ (cs @ ds) \<and> url ` set (cs @ ds) = url ` set cs \<union> {u}"
    using assms(1) by (simp add: image_Un)
  then show ?thesis by blast
qed

lemma urls_getFullConfiguration:
  "url ` set (issued w (snd (getFullConfiguration net this settle w)))
     = {getBaseUrl this @ ''/rci/show/system'', getBaseUrl this @ ''/rci/show/interface'',
        getBaseUrl this @ ''/rci/show/interface/wireless'', getBaseUrl this @ ''/rci/show/ip/hotspot'',
        getBaseUrl this @ ''/rci/show/vpn'', getBaseUrl this @ ''/rci/show/usb'',
        getBaseUrl this @ ''/rci/show/ip/firewall'', getBaseUrl this @ ''/rci/show/ip/dns'',
        getBaseUrl this @ ''/rci/show/ip/dhcp/server''}"
proof -
  let ?n = "retryCount this"
  define w1 where "w1 = snd (request net this ''/rci/show/system'' no_options ?n w)"
  define w2 where "w2 = snd (request net this ''/rci/show/interface'' no_options ?n w1)"
  define w3 where "w3 = snd (request net this ''/rci/show/interface/wireless'' no_options ?n w2)"
  define w4 where "w4 = snd (request net this ''/rci/show/ip/hotspot'' no_options ?n w3)"
  define w5 where "w5 = snd (request net this ''/rci/show/vpn'' no_options ?n w4)"
  define w6 where "w6 = snd (request net this ''/rci/show/usb'' no_options ?n w5)"
  define w7 where "w7 = snd (request net this ''/rci/show/ip/firewall'' no_options ?n w6)"
  define w8 where "w8 = snd (request net this ''/rci/show/ip/dns'' no_options ?n w7)"
  define w9 where "w9 = snd (request net this ''/rci/show/ip/dhcp/server'' no_options ?n w8)"
  note ws = w1_def w2_def w3_def w4_def w5_def w6_def w7_def w8_def w9_def
  obtain c1 where 1: "calls w1 = calls w @ c1"
      "url ` set c1 = {getBaseUrl this @ ''/rci/show/system''}"
    unfolding w1_def using request_issued_urls by blast
  obtain c2 where 2: "calls w2 = calls w @ c2"
      "url ` set c2 = url ` set c1 \<union> {getBaseUrl this @ ''/rci/show/interface''}"
    using issued_trans [OF 1(1) request_issued_urls] unfolding w2_def by blast
  obtain c3 where 3: "calls w3 = calls w @ c3"
      "url ` set c3 = url ` set c2 \<union> {getBaseUrl this @ ''/rci/show/interface/wireless''}"
    using issued_trans [OF 2(1) request_issued_urls] unfolding w3_def by blast
  obtain c4 where 4: "calls w4 = calls w @ c4"
      "url ` set c4 = url ` set c3 \<union> {getBaseUrl this @ ''/rci/show/ip/hotspot''}"
    using issued_trans [OF 3(1) request_issued_urls] unfolding w4_def by blast
  obtain c5 where 5: "calls w5 = calls w @ c5"
      "url ` set c5 = url ` set c4 \<union> {getBaseUrl this @ ''/rci/show/vpn''}"
    using issued_trans [OF 4(1) request_issued_urls] unfolding w5_def by blast
  obtain c6 where 6: "calls w6 = calls w @ c6"
      "url ` set c6 = url ` set c5 \<union> {getBaseUrl this @ ''/rci/show/usb''}"
    using issued_trans [OF 5(1) request_issued_urls] unfolding w6_def by blast
  obtain c7 where 7: "calls w7 = calls w @ c7"
      "url ` set c7 = url ` set c6 \<union> {getBaseUrl this @ ''/rci/show/ip/firewall''}"
    using issued_trans [OF 6(1) request_issued_urls] unfolding w7_def by blast
  obtain c8 where 8: "calls w8 = calls w @ c8"
      "url ` set c8 = url ` set c7 \<union> {getBaseUrl this @ ''/rci/show/ip/dns''}"
    using issued_trans [OF 7(1) request_issued_urls] unfolding w8_def by blast
  obtain c9 where 9: "calls w9 = calls w @ c9"
      "url ` set c9 = url ` set c8 \<union> {getBaseUrl this @ ''/rci/show/ip/dhcp/server''}"
    using issued_trans [OF 8(1) request_issued_urls] unfolding w9_def by blast
  have "snd (getFullConfiguration net this settle w) = w9"
    by (simp add: snd_getFullConfiguration read_defs ws)
  then have "issued w (snd (getFullConfiguration net this settle w)) = c9"
    using 9(1) by (simp add: issued_append)
  moreover have "url ` set c9 =
      {getBaseUrl this @ ''/rci/show/ip/dhcp/server'', getBaseUrl this @ ''/rci/show/ip/dns'',
       getBaseUrl this @ ''/rci/show/ip/firewall'', getBaseUrl this @ ''/rci/show/usb'',
       getBaseUrl this @ ''/rci/show/vpn'', getBaseUrl this @ ''/rci/show/ip/hotspot'',
       getBaseUrl this @ ''/rci/show/interface/wireless'', getBaseUrl this @ ''/rci/show/interface'',
       getBaseUrl this @ ''/rci/show/system''}"
    by (simp only: 9(2) 8(2) 7(2) 6(2) 5(2) 4(2) 3(2) 2(2) 1(2) Un_insert_right Un_empty_right)
  ultimately show ?thesis by (simp add: insert_commute)
qed

text \<open>
  C4. \<open>getFullConfiguration\<close> issues the nine reads (system, interfaces, Wi-Fi, clients,
  VPN, USB, firewall rules, DNS, DHCP). When one of them fails the aggregate fails with the
  error of a failed read, and there is no partial object; when all nine succeed the result
  is the composite of the nine values. The order in which the reads settle does not
  matter.
\<close>

theorem getFullConfiguration_all_or_nothing:
  "url ` set (issued w (snd (getFullConfiguration net this settle w)))
     = {getBaseUrl this @ ''/rci/show/system'', getBaseUrl this @ ''/rci/show/interface'',
        getBaseUrl this @ ''/rci/show/interface/wireless'', getBaseUrl this @ ''/rci/show/ip/hotspot'',
        getBaseUrl this @ ''/rci/show/vpn'', getBaseUrl this @ ''/rci/show/usb'',
        getBaseUrl this @ ''/rci/show/ip/firewall'', getBaseUrl this @ ''/rci/show/ip/dns'',
        getBaseUrl this @ ''/rci/show/ip/dhcp/server''} \<and>
   (list_ex isl (reads net this w) \<longrightarrow>
      (\<exists>e. fst (getFullConfiguration net this settle w) = Inl e \<and> Inl e \<in> set (reads net this w))) \<and>
   (reads net this w = [Inr system, Inr interfaces, Inr wifi, Inr clients, Inr vpn, Inr usb,
                        Inr firewall, Inr dns, Inr dhcp] \<longrightarrow>
      fst (getFullConfiguration net this settle w) =
        Inr (JObject
          [(''system'', system), (''interfaces'', interfaces), (''wifi'', wifi),
           (''clients'', clients), (''vpn'', vpn), (''usb'', usb),
           (''firewall'', JObject [(''enabled'', JBool True),
                                   (''defaultPolicy'', JString ''drop''),
                                   (''rules'', firewall)]),
           (''dns'', dns), (''dhcp'', dhcp)]))"
proof (intro conjI impI)
  show "url ` set (issued w (snd (getFullConfiguration net this settle w)))
     = {getBaseUrl this @ ''/rci/show/system'', getBaseUrl this @ ''/rci/show/interface'',
        getBaseUrl this @ ''/rci/show/interface/wireless'', getBaseUrl this @ ''/rci/show/ip/hotspot'',
        getBaseUrl this @ ''/rci/show/vpn'', getBaseUrl this @ ''/rci/show/usb'',
        getBaseUrl this @ ''/rci/show/ip/firewall'', getBaseUrl this @ ''/rci/show/ip/dns'',
        getBaseUrl this @ ''/rci/show/ip/dhcp/server''}"
    by (rule urls_getFullConfiguration)
next
  assume "list_ex isl (reads net this w)"
  then obtain e where "Promise_all settle (reads net this w) = Inl e"
      and "Inl e \<in> set (reads net this w)"
    using Promise_all_rejects by blast
  then have "fst (getFullConfiguration net this settle w) = Inl e \<and> Inl e \<in> set (reads net this w)"
    by (simp add: fst_getFullConfiguration)
  then show "\<exists>e. fst (getFullConfiguration net this settle w) = Inl e \<and> Inl e \<in> set (reads net this w)"
    by blast
next
  let ?vs = "[system, interfaces, wifi, clients, vpn, usb, firewall, dns, dhcp]"
  assume "reads net this w = [Inr system, Inr interfaces, Inr wifi, Inr clients, Inr vpn, Inr usb,
                        Inr firewall, Inr dns, Inr dhcp]"
  then have "reads net this w = map Inr ?vs" by simp
  then have "Promise_all settle (reads net this w) = Inr ?vs"
    by (simp only: Promise_all_fulfils)
  then show "fst (getFullConfiguration net this settle w) =
        Inr (JObject
          [(''system'', system), (''interfaces'', interfaces), (''wifi'', wifi),
           (''clients'', clients), (''vpn'', vpn), (''usb'', usb),
           (''firewall'', JObject [(''enabled'', JBool True),
                                   (''defaultPolicy'', JString ''drop''),
                                   (''rules'', firewall)]),
           (''dns'', dns), (''dhcp'', dhcp)])"
    by (simp add: fst_getFullConfiguration item_def)
qed

lemma reads_flaky0:
  "reads (flaky 0) (constructor default_options) world0
     = replicate 9 (Inr (JObject [(''status'', JString ''ok'')]))"
  by code_simp

lemma reads_usb_down:
  "list_ex isl (reads usb_down (constructor default_options) world0)"
  by code_simp

theorem getFullConfiguration_all_or_nothing_witness:
  "fst (getFullConfiguration (flaky 0) (constructor default_options) (\<lambda>i. i) world0) =
     Inr (JObject
       [(''system'', JObject [(''status'', JString ''ok'')]),
        (''interfaces'', JObject [(''status'', JString ''ok'')]),
        (''wifi'', JObject [(''status'', JString ''ok'')]),
        (''clients'', JObject [(''status'', JString ''ok'')]),
        (''vpn'', JObject [(''status'', JString ''ok'')]),
        (''usb'', JObject [(''status'', JString ''ok'')]),
        (''firewall'', JObject [(''enabled'', JBool True),
                                (''defaultPolicy'', JString ''drop''),
                                (''rules'', JObject [(''status'', JString ''ok'')])]),
        (''dns'', JObject [(''status'', JString ''ok'')]),
        (''dhcp'', JObject [(''status'', JString ''ok'')])]) \<and>
   isl (fst (getFullConfiguration usb_down (constructor default_options) (\<lambda>i. i) world0))"
proof -
  let ?v = "JObject [(''status'', JString ''ok'')]"
  have 1: "reads (flaky 0) (constructor default_options) world0
             = [Inr ?v, Inr ?v, Inr ?v, Inr ?v, Inr ?v, Inr ?v, Inr ?v, Inr ?v, Inr ?v]"
    by (simp add: reads_flaky0 eval_nat_numeral)
  have "list_ex isl (reads usb_down (constructor default_options) world0) \<longrightarrow>
          (\<exists>e. fst (getFullConfiguration usb_down (constructor default_options) (\<lambda>i. i) world0) = Inl e \<and>
               Inl e \<in> set (reads usb_down (constructor default_options) world0))"
    using getFullConfiguration_all_or_nothing
            [of world0 usb_down "constructor default_options" "\<lambda>i. i"
                JNull JNull JNull JNull JNull JNull JNull JNull JNull]
    by (rule conjunct1 [OF conjunct2])
  then obtain e where
    "fst (getFullConfiguration usb_down (constructor default_options) (\<lambda>i. i) world0) = Inl e"
    using reads_usb_down by blast
  then have 2: "isl (fst (getFullConfiguration usb_down (constructor default_options) (\<lambda>i. i) world0))"
    by simp
  show ?thesis
    using getFullConfiguration_all_or_nothing
            [of world0 "flaky 0" "constructor default_options" "\<lambda>i. i" ?v ?v ?v ?v ?v ?v ?v ?v ?v]
          1 2
    by blast
qed

subsection \<open>The operation table\<close>

lemma snd_void: "snd (void rw) = snd rw"
  by (simp add: void_def split: prod.splits sum.splits)

lemma requests_of_fetch:
  "requests_of w (snd (fetch net c w)) = {(effective_method c, url c, call_body c)}"
  by (simp add: requests_of_def issued_def fetch_def)

lemma requests_of_reads:
  "requests_of w (snd (getSystemInfo net this w)) = {(''GET'', getBaseUrl this @ ''/rci/show/system'', None)}"
  "requests_of w (snd (getInterfaces net this w)) = {(''GET'', getBaseUrl this @ ''/rci/show/interface'', None)}"
  "requests_of w (snd (getInterface net this name w))
     = {(''GET'', getBaseUrl this @ ''/rci/show/interface/'' @ name, None)}"
  "requests_of w (snd (getWifiNetworks net this w))
     = {(''GET'', getBaseUrl this @ ''/rci/show/interface/wireless'', None)}"
  "requests_of w (snd (getConnectedClients net this w))
     = {(''GET'', getBaseUrl this @ ''/rci/show/ip/hotspot'', None)}"
  "requests_of w (snd (getVpnConnections net this w)) = {(''GET'', getBaseUrl this @ ''/rci/show/vpn'', None)}"
  "requests_of w (snd (getFirewallRules net this w))
     = {(''GET'', getBaseUrl this @ ''/rci/show/ip/firewall'', None)}"
  "requests_of w (snd (getDnsSettings net this w)) = {(''GET'', getBaseUrl this @ ''/rci/show/ip/dns'', None)}"
  "requests_of w (snd (getDhcpServers net this w))
     = {(''GET'', getBaseUrl this @ ''/rci/show/ip/dhcp/server'', None)}"
  "requests_of w (snd (getUsbDevices net this w)) = {(''GET'', getBaseUrl this @ ''/rci/show/usb'', None)}"
  by (simp_all add: read_defs getInterface_def requests_of_request no_options_def)

lemma requests_of_updates:
  "requests_of w (snd (configureInterface net this name config w))
     = {(''PATCH'', getBaseUrl this @ ''/rci/interface/'' @ name, map_option Text (JSON_stringify config))}"
  "requests_of w (snd (configureWifiNetwork net this ssid config w))
     = {(''PATCH'', getBaseUrl this @ ''/rci/wireless/ssid/'' @ ssid, map_option Text (JSON_stringify config))}"
  "requests_of w (snd (createWifiNetwork net this config w))
     = {(''POST'', getBaseUrl this @ ''/rci/wireless/ssid'', map_option Text (JSON_stringify config))}"
  "requests_of w (snd (configureVpn net this type config w))
     = {(''PATCH'', getBaseUrl this @ ''/rci/vpn/'' @ type, map_option Text (JSON_stringify config))}"
  "requests_of w (snd (addFirewallRule net this rule w))
     = {(''POST'', getBaseUrl this @ ''/rci/ip/firewall/rule'', map_option Text (JSON_stringify rule))}"
  "requests_of w (snd (updateFirewallRule net this id' rule w))
     = {(''PATCH'', getBaseUrl this @ ''/rci/ip/firewall/rule/'' @ String_int id',
         map_option Text (JSON_stringify rule))}"
  "requests_of w (snd (configureDns net this settings w))
     = {(''PATCH'', getBaseUrl this @ ''/rci/ip/dns'', map_option Text (JSON_stringify settings))}"
  "requests_of w (snd (configureDhcpServer net this interface_name config w))
     = {(''PATCH'', getBaseUrl this @ ''/rci/ip/dhcp/server/'' @ interface_name,
         map_option Text (JSON_stringify config))}"
  by (simp_all add: configureInterface_def configureWifiNetwork_def createWifiNetwork_def
        configureVpn_def addFirewallRule_def updateFirewallRule_def configureDns_def
        configureDhcpServer_def requests_of_request with_json_def)

lemma requests_of_actions:
  "requests_of w (snd (deleteWifiNetwork net this ssid w))
     = {(''DELETE'', getBaseUrl this @ ''/rci/wireless/ssid/'' @ ssid, None)}"
  "requests_of w (snd (blockClient net this mac w))
     = {(''POST'', getBaseUrl this @ ''/rci/ip/hotspot/mac/'' @ mac @ ''/block'', None)}"
  "requests_of w (snd (unblockClient net this mac w))
     = {(''POST'', getBaseUrl this @ ''/rci/ip/hotspot/mac/'' @ mac @ ''/unblock'', None)}"
  "requests_of w (snd (deleteFirewallRule net this id' w))
     = {(''DELETE'', getBaseUrl this @ ''/rci/ip/firewall/rule/'' @ String_int id', None)}"
  "requests_of w (snd (reboot net this w)) = {(''POST'', getBaseUrl this @ ''/rci/system/reboot'', None)}"
  by (simp_all add: deleteWifiNetwork_def blockClient_def unblockClient_def deleteFirewallRule_def
        reboot_def snd_void requests_of_request with_method_def)

lemma snd_execute:
  "snd (case rw of (Inl e, w') \<Rightarrow> (Inl e, w') | (Inr response, w') \<Rightarrow> (f response, w')) = snd rw"
  by (simp split: prod.splits sum.splits)

lemma requests_of_commands:
  "requests_of w (snd (executeCliCommand net this command w))
     = {(''POST'', getBaseUrl this @ ''/rci/cli/execute'',
         map_option Text (JSON_stringify (JObject [(''command'', JString command)])))}"
  "requests_of w (snd (executeSshCommand net this command w))
     = {(''POST'', getBaseUrl this @ ''/rci/ssh/execute'',
         map_option Text (JSON_stringify (JObject [(''command'', JString command)])))}"
  by (simp_all only: executeCliCommand_def executeSshCommand_def snd_execute requests_of_request)
     (simp_all add: with_json_def)

lemma snd_direct:
  "snd (case rw of (Inl e, w') \<Rightarrow> (Inl e, w')
        | (Inr response, w') \<Rightarrow> if c response then (f response, w') else (g response, w')) = snd rw"
  by (simp split: prod.splits sum.splits)

lemma requests_of_transfers:
  "requests_of w (snd (backupConfiguration net this w))
     = {(''GET'', getBaseUrl this @ ''/rci/system/configuration/export'', None)}"
  "requests_of w (snd (restoreConfiguration net this configFile w))
     = {(''POST'', getBaseUrl this @ ''/rci/system/configuration/import'',
         Some (FormData [(''file'', configFile)]))}"
  "requests_of w (snd (updateFirmware net this firmwareFile w))
     = {(''POST'', getBaseUrl this @ ''/rci/system/firmware/update'',
         Some (FormData [(''file'', firmwareFile)]))}"
  by (simp_all only: backupConfiguration_def restoreConfiguration_def updateFirmware_def
        snd_direct requests_of_fetch)
     (simp_all add: direct_call_def effective_method_def)

lemma stringify_enabled_false:
  "JSON_stringify (JObject [(''enabled'', JBool False)])
     = Some ([CHR ''{'', dquote] @ ''enabled'' @ [dquote] @ '':false}'')"
  by (simp add: quote_def quote_char_def dquote_def backslash_def)

lemmas requests_of_operation =
  requests_of_reads requests_of_updates requests_of_actions requests_of_commands
  requests_of_transfers

text \<open>
  C5. Every domain operation issues the method and the path of its row of the table, and
  the operations with a key in the path are injective in it: distinct interface names,
  SSIDs, MAC addresses, VPN types and rule ids give distinct requests. In particular
  \<open>configureWifiNetwork("MyWifi", {enabled:false})\<close> issues
  \<open>PATCH /rci/wireless/ssid/MyWifi\<close> with the body \<open>{"enabled":false}\<close>.
\<close>

theorem operations_match_table:
  "requests_of w (snd (testConnection net this w))
     = {(''GET'', getBaseUrl this @ ''/rci/system/status'', None)} \<and>
   requests_of w (snd (getSystemInfo net this w))
     = {(''GET'', getBaseUrl this @ ''/rci/show/system'', None)} \<and>
   requests_of w (snd (getInterfaces net this w))
     = {(''GET'', getBaseUrl this @ ''/rci/show/interface'', None)} \<and>
   requests_of w (snd (getInterface net this name w))
     = {(''GET'', getBaseUrl this @ ''/rci/show/interface/'' @ name, None)} \<and>
   requests_of w (snd (configureInterface net this name config w))
     = {(''PATCH'', getBaseUrl this @ ''/rci/interface/'' @ name,
         map_option Text (JSON_stringify config))} \<and>
   requests_of w (snd (getWifiNetworks net this w))
     = {(''GET'', getBaseUrl this @ ''/rci/show/interface/wireless'', None)} \<and>
   requests_of w (snd (createWifiNetwork net this config w))
     = {(''POST'', getBaseUrl this @ ''/rci/wireless/ssid'',
         map_option Text (JSON_stringify config))} \<and>
   requests_of w (snd (configureWifiNetwork net this ssid config w))
     = {(''PATCH'', getBaseUrl this @ ''/rci/wireless/ssid/'' @ ssid,
         map_option Text (JSON_stringify config))} \<and>
   requests_of w (snd (deleteWifiNetwork net this ssid w))
     = {(''DELETE'', getBaseUrl this @ ''/rci/wireless/ssid/'' @ ssid, None)} \<and>
   requests_of w (snd (getConnectedClients net this w))
     = {(''GET'', getBaseUrl this @ ''/rci/show/ip/hotspot'', None)} \<and>
   requests_of w (snd (blockClient net this mac w))
     = {(''POST'', getBaseUrl this @ ''/rci/ip/hotspot/mac/'' @ mac @ ''/block'', None)} \<and>
   requests_of w (snd (unblockClient net this mac w))
     = {(''POST'', getBaseUrl this @ ''/rci/ip/hotspot/mac/'' @ mac @ ''/unblock'', None)} \<and>
   requests_of w (snd (getVpnConnections net this w))
     = {(''GET'', getBaseUrl this @ ''/rci/show/vpn'', None)} \<and>
   requests_of w (snd (configureVpn net this type config w))
     = {(''PATCH'', getBaseUrl this @ ''/rci/vpn/'' @ type,
         map_option Text (JSON_stringify config))} \<and>
   requests_of w (snd (getFirewallRules net this w))
     = {(''GET'', getBaseUrl this @ ''/rci/show/ip/firewall'', None)} \<and>
   requests_of w (snd (addFirewallRule net this rule w))
     = {(''POST'', getBaseUrl this @ ''/rci/ip/firewall/rule'',
         map_option Text (JSON_stringify rule))} \<and>
   requests_of w (snd (updateFirewallRule net this id' rule w))
     = {(''PATCH'', getBaseUrl this @ ''/rci/ip/firewall/rule/'' @ String_int id',
         map_option Text (JSON_stringify rule))} \<and>
   requests_of w (snd (deleteFirewallRule net this id' w))
     = {(''DELETE'', getBaseUrl this @ ''/rci/ip/firewall/rule/'' @ String_int id', None)} \<and>
   requests_of w (snd (getDnsSettings net this w))
     = {(''GET'', getBaseUrl this @ ''/rci/show/ip/dns'', None)} \<and>
   requests_of w (snd (configureDns net this settings w))
     = {(''PATCH'', getBaseUrl this @ ''/rci/ip/dns'',
         map_option Text (JSON_stringify settings))} \<and>
   requests_of w (snd (getDhcpServers net this w))
     = {(''GET'', getBaseUrl this @ ''/rci/show/ip/dhcp/server'', None)} \<and>
   requests_of w (snd (configureDhcpServer net this interface_name config w))
     = {(''PATCH'', getBaseUrl this @ ''/rci/ip/dhcp/server/'' @ interface_name,
         map_option Text (JSON_stringify config))} \<and>
   requests_of w (snd (getUsbDevices net this w))
     = {(''GET'', getBaseUrl this @ ''/rci/show/usb'', None)} \<and>
   requests_of w (snd (executeCliCommand net this command w))
     = {(''POST'', getBaseUrl this @ ''/rci/cli/execute'',
         map_option Text (JSON_stringify (JObject [(''command'', JString command)])))} \<and>
   requests_of w (snd (executeSshCommand net this command w))
     = {(''POST'', getBaseUrl this @ ''/rci/ssh/execute'',
         map_option Text (JSON_stringify (JObject [(''command'', JString command)])))} \<and>
   requests_of w (snd (backupConfiguration net this w))
     = {(''GET'', getBaseUrl this @ ''/rci/system/configuration/export'', None)} \<and>
   requests_of w (snd (restoreConfiguration net this configFile w))
     = {(''POST'', getBaseUrl this @ ''/rci/system/configuration/import'',
         Some (FormData [(''file'', configFile)]))} \<and>
   requests_of w (snd (updateFirmware net this firmwareFile w))
     = {(''POST'', getBaseUrl this @ ''/rci/system/firmware/update'',
         Some (FormData [(''file'', firmwareFile)]))} \<and>
   requests_of w (snd (reboot net this w))
     = {(''POST'', getBaseUrl this @ ''/rci/system/reboot'', None)} \<and>
   (requests_of w (snd (getInterface net this a w))
      = requests_of w (snd (getInterface net this b w))) = (a = b) \<and>
   (requests_of w (snd (configureInterface net this a config w))
      = requests_of w (snd (configureInterface net this b config w))) = (a = b) \<and>
   (requests_of w (snd (configureWifiNetwork net this a config w))
      = requests_of w (snd (configureWifiNetwork net this b config w))) = (a = b) \<and>
   (requests_of w (snd (deleteWifiNetwork net this a w))
      = requests_of w (snd (deleteWifiNetwork net this b w))) = (a = b) \<and>
   (requests_of w (snd (blockClient net this a w))
      = requests_of w (snd (blockClient net this b w))) = (a = b) \<and>
   (requests_of w (snd (unblockClient net this a w))
      = requests_of w (snd (unblockClient net this b w))) = (a = b) \<and>
   (requests_of w (snd (configureVpn net this a config w))
      = requests_of w (snd (configureVpn net this b config w))) = (a = b) \<and>
   (requests_of w (snd (updateFirewallRule net this i rule w))
      = requests_of w (snd (updateFirewallRule net this j rule w))) = (i = j) \<and>
   (requests_of w (snd (deleteFirewallRule net this i w))
      = requests_of w (snd (deleteFirewallRule net this j w))) = (i = j) \<and>
   (requests_of w (snd (configureDhcpServer net this a config w))
      = requests_of w (snd (configureDhcpServer net this b config w))) = (a = b) \<and>
   requests_of w (snd (configureWifiNetwork net this ''MyWifi'' (JObject [(''enabled'', JBool False)]) w))
     = {(''PATCH'', getBaseUrl this @ ''/rci/wireless/ssid/MyWifi'',
         Some (Text ([CHR ''{'', dquote] @ ''enabled'' @ [dquote] @ '':false}'')))}"
  unfolding requests_of_operation snd_testConnection requests_of_request stringify_enabled_false
  by (simp add: no_options_def String_int_inject)

theorem operations_match_table_witness:
  "requests_of world0
     (snd (configureWifiNetwork (flaky 0) (constructor default_options) ''MyWifi''
             (JObject [(''enabled'', JBool False)]) world0))
     = {(''PATCH'', ''https://192.168.1.1/rci/wireless/ssid/MyWifi'',
         Some (Text ([CHR ''{'', dquote] @ ''enabled'' @ [dquote] @ '':false}'')))} \<and>
   requests_of world0 (snd (deleteFirewallRule (flaky 0) (constructor default_options) 7 world0))
     = {(''DELETE'', ''https://192.168.1.1/rci/ip/firewall/rule/7'', None)}"
proof -
  have b: "getBaseUrl (constructor default_options) = ''https://192.168.1.1''"
    by (simp add: getBaseUrl_def constructor_def default_options_def admin_def)
  have s: "String_int 7 = ''7''"
    by (simp add: String_int_def digits.simps digit_def)
  show ?thesis
    using operations_match_table [of world0 "flaky 0" "constructor default_options" "''x''" JNull
        "''x''" "''x''" "''x''" JNull 7 JNull "''x''" "''x''" "''x''" "''x''" "''x''" "''x''" 0 0]
    by (simp add: b s)
qed

subsection \<open>The singleton accessor\<close>

lemma get_all_initialized:
  "keeneticControlInstance s = Some i \<Longrightarrow> get_all later s = replicate (length later) (Inr i)"
  by (induction later) (simp_all add: getKeeneticControl_def)

lemma fresh_counter_get: "fresh_counter s \<Longrightarrow> fresh_counter (snd (getKeeneticControl options s))"
  by (auto simp: fresh_counter_def getKeeneticControl_def new_KeeneticControl_def
        split: option.splits)

lemma fresh_counter_init: "fresh_counter (snd (initKeeneticControl options s))"
  by (simp add: fresh_counter_def initKeeneticControl_def new_KeeneticControl_def)

lemma fresh_counter_run: "fresh_counter s \<Longrightarrow> fresh_counter (run_calls cs s)"
  by (induction cs s rule: run_calls.induct)
     (simp_all add: fresh_counter_get fresh_counter_init)

lemma fresh_counter0: "fresh_counter module_state0"
  by (simp add: fresh_counter_def module_state0_def)

text \<open>
  C6. Before any initialisation, \<open>getKeeneticControl\<close> without options throws the
  configuration-missing error. With options it creates the instance on the first such
  call, and every later call, with or without options, returns that same instance.
  \<open>initKeeneticControl\<close> always replaces the current instance by a new client built from
  its options.
\<close>

theorem singleton_accessor:
  "getKeeneticControl None module_state0
     = (Inl (Error ''KeeneticControl not initialized. Provide options for first call.''),
        module_state0) \<and>
   (keeneticControlInstance s = None \<longrightarrow>
      getKeeneticControl None s
        = (Inl (Error ''KeeneticControl not initialized. Provide options for first call.''), s) \<and>
      (\<exists>i s'. getKeeneticControl (Some options) s = (Inr i, s') \<and>
              client_state i = constructor options \<and>
              keeneticControlInstance s' = Some i \<and>
              get_all later s' = replicate (length later) (Inr i))) \<and>
   (keeneticControlInstance s = Some j \<longrightarrow> getKeeneticControl any s = (Inr j, s)) \<and>
   (\<exists>i s'. initKeeneticControl options s = (i, s') \<and>
           client_state i = constructor options \<and>
           keeneticControlInstance s' = Some i \<and>
           get_all later s' = replicate (length later) (Inr i)) \<and>
   (keeneticControlInstance (run_calls cs module_state0) = Some j \<longrightarrow>
      client_ref (fst (initKeeneticControl options (run_calls cs module_state0))) \<noteq> client_ref j)"
proof (intro conjI impI)
  show "getKeeneticControl None module_state0
     = (Inl (Error ''KeeneticControl not initialized. Provide options for first call.''),
        module_state0)"
    by (simp add: getKeeneticControl_def module_state0_def)
next
  assume "keeneticControlInstance s = None"
  then show "getKeeneticControl None s
        = (Inl (Error ''KeeneticControl not initialized. Provide options for first call.''), s)"
    by (simp add: getKeeneticControl_def)
next
  assume none: "keeneticControlInstance s = None"
  let ?i = "\<lparr> client_ref = allocated s, client_state = constructor options \<rparr>"
  let ?s' = "s\<lparr>allocated := Suc (allocated s), keeneticControlInstance := Some ?i\<rparr>"
  have "getKeeneticControl (Some options) s = (Inr ?i, ?s')"
    using none by (simp add: getKeeneticControl_def new_KeeneticControl_def)
  moreover have "get_all later ?s' = replicate (length later) (Inr ?i)"
    by (rule get_all_initialized) simp
  ultimately show "\<exists>i s'. getKeeneticControl (Some options) s = (Inr i, s') \<and>
              client_state i = constructor options \<and>
              keeneticControlInstance s' = Some i \<and>
              get_all later s' = replicate (length later) (Inr i)"
    by (intro exI [of _ ?i] exI [of _ ?s']) simp
next
  assume "keeneticControlInstance s = Some j"
  then show "getKeeneticControl any s = (Inr j, s)"
    by (simp add: getKeeneticControl_def)
next
  let ?i = "\<lparr> client_ref = allocated s, client_state = constructor options \<rparr>"
  let ?s' = "s\<lparr>allocated := Suc (allocated s), keeneticControlInstance := Some ?i\<rparr>"
  have "initKeeneticControl options s = (?i, ?s')"
    by (simp add: initKeeneticControl_def new_KeeneticControl_def)
  moreover have "get_all later ?s' = replicate (length later) (Inr ?i)"
    by (rule get_all_initialized) simp
  ultimately show "\<exists>i s'. initKeeneticControl options s = (i, s') \<and>
           client_state i = constructor options \<and>
           keeneticControlInstance s' = Some i \<and>
           get_all later s' = replicate (length later) (Inr i)"
    by (intro exI [of _ ?i] exI [of _ ?s']) simp
next
  let ?s = "run_calls cs module_state0"
  assume j: "keeneticControlInstance ?s = Some j"
  have "fresh_counter ?s"
    by (intro fresh_counter_run fresh_counter0)
  with j have "client_ref j < allocated ?s"
    by (simp add: fresh_counter_def)
  moreover have "client_ref (fst (initKeeneticControl options ?s)) = allocated ?s"
    by (simp add: initKeeneticControl_def new_KeeneticControl_def)
  ultimately show "client_ref (fst (initKeeneticControl options ?s)) \<noteq> client_ref j"
    by simp
qed

theorem singleton_accessor_witness:
  "fst (getKeeneticControl (Some default_options) module_state0)
     = Inr \<lparr> client_ref = 0, client_state = constructor default_options \<rparr> \<and>
   fst (getKeeneticControl (Some (default_options\<lparr>opt_debug := Some True\<rparr>))
          (snd (getKeeneticControl (Some default_options) module_state0)))
     = Inr \<lparr> client_ref = 0, client_state = constructor default_options \<rparr> \<and>
   client_ref (fst (initKeeneticControl default_options
                      (run_calls [Get (Some default_options)] module_state0))) \<noteq> 0"
proof -
  let ?i = "\<lparr> client_ref = 0, client_state = constructor default_options \<rparr>"
  let ?s = "snd (getKeeneticControl (Some default_options) module_state0)"
  have g: "getKeeneticControl (Some default_options) module_state0
             = (Inr ?i, \<lparr> keeneticControlInstance = Some ?i, allocated = Suc 0 \<rparr>)"
    by (simp add: getKeeneticControl_def new_KeeneticControl_def module_state0_def)
  then have k: "keeneticControlInstance ?s = Some ?i" by simp
  have r: "run_calls [Get (Some default_options)] module_state0 = ?s" by simp
  have 1: "getKeeneticControl (Some (default_options\<lparr>opt_debug := Some True\<rparr>)) ?s = (Inr ?i, ?s)"
    using singleton_accessor [of ?s default_options "[]" ?i _ "[]"] k by blast
  have 2: "client_ref (fst (initKeeneticControl default_options
                      (run_calls [Get (Some default_options)] module_state0))) \<noteq> client_ref ?i"
    using singleton_accessor [of "module_state0" default_options "[]" ?i None "[Get (Some default_options)]"] k r
    by simp
  from g 1 2 show ?thesis by simp
qed

subsection \<open>The YAML transcription\<close>


lemma join_map_singleton:
  "props \<noteq> [] \<Longrightarrow> join sep (map f props) = join sep (map (\<lambda>x. join sep (map f [x])) props)"
  by simp










lemma trimStart_suffix: "\<exists>p. s = p @ trimStart s \<and> list_all is_whitespace p"
  by (metis takeWhile_dropWhile_id trimStart_def list_all_iff set_takeWhileD)


lemma newline_is_whitespace: "is_whitespace CHR 0x0A"
  by (simp add: is_whitespace_def)




















subsection \<open>The base URL\<close>

text \<open>
  C8, as stated: the port suffix appears exactly when a port is supplied. The code tests
  the port for truthiness, so a supplied port of 0 gives no suffix.
\<close>

theorem getBaseUrl_port_zero:
  "port (this_credentials (constructor (default_options\<lparr>credentials := admin\<lparr>port := Some 0\<rparr>\<rparr>)))
     = Some 0 \<and>
   getBaseUrl (constructor (default_options\<lparr>credentials := admin\<lparr>port := Some 0\<rparr>\<rparr>))
     = ''https://192.168.1.1''"
  by (simp add: getBaseUrl_def constructor_def default_options_def admin_def)

text \<open>
  C8, amended: the base URL of every request is \<open>scheme://host[:port]\<close>. The scheme is
  \<open>https\<close> in every case, an absent \<open>secure\<close> included, except \<open>secure === false\<close>, where
  it is \<open>http\<close>. The port suffix appears exactly when a port is supplied and is not 0.
\<close>

theorem getBaseUrl_scheme_host_port:
  "(secure (this_credentials this) = Some False \<longrightarrow>
      take 7 (getBaseUrl this) = ''http://'') \<and>
   (secure (this_credentials this) \<noteq> Some False \<longrightarrow>
      take 8 (getBaseUrl this) = ''https://'') \<and>
   (port (this_credentials this) = None \<or> port (this_credentials this) = Some 0 \<longrightarrow>
      getBaseUrl this
        = (if secure (this_credentials this) = Some False then ''http'' else ''https'')
          @ ''://'' @ host (this_credentials this)) \<and>
   (port (this_credentials this) = Some p \<and> p \<noteq> 0 \<longrightarrow>
      getBaseUrl this
        = (if secure (this_credentials this) = Some False then ''http'' else ''https'')
          @ ''://'' @ host (this_credentials this) @ '':'' @ String_int p) \<and>
   url ` set (issued w (snd (request net this endpoint options retries w)))
     = {getBaseUrl this @ endpoint}"
proof (intro conjI impI)
  obtain cs where "calls (snd (request net this endpoint options retries w)) = calls w @ cs"
    and "url ` set cs = {getBaseUrl this @ endpoint}"
    using request_issued_urls by blast
  then show "url ` set (issued w (snd (request net this endpoint options retries w)))
     = {getBaseUrl this @ endpoint}"
    by (simp add: issued_append)
qed (auto simp: getBaseUrl_def Let_def)

theorem getBaseUrl_scheme_host_port_witness:
  "getBaseUrl (constructor (default_options\<lparr>credentials := admin\<lparr>port := Some 8080, secure := Some False\<rparr>\<rparr>))
     = ''http://192.168.1.1:8080'' \<and>
   getBaseUrl (constructor default_options) = ''https://192.168.1.1''"
proof -
  let ?a = "constructor (default_options\<lparr>credentials := admin\<lparr>port := Some 8080, secure := Some False\<rparr>\<rparr>)"
  have s: "String_int 8080 = ''8080''"
    by (simp add: String_int_def digits.simps digit_def)
  have 1: "getBaseUrl ?a = ''http://192.168.1.1:8080''"
    using getBaseUrl_scheme_host_port [where this = ?a and p = 8080]
    by (simp add: constructor_def default_options_def admin_def s)
  have 2: "getBaseUrl (constructor default_options) = ''https://192.168.1.1''"
    using getBaseUrl_scheme_host_port [where this = "constructor default_options" and p = 1]
    by (simp add: constructor_def default_options_def admin_def)
  from 1 2 show ?thesis by simp
qed

subsection \<open>Headers\<close>











subsection \<open>Defaults of the constructor\<close>

text \<open>
  C10. A timeout, retry count or retry delay that is supplied as 0, like one that is
  absent, gives the default: 10000 ms, 3 and 1000 ms. In particular \<open>retryCount: 0\<close> does
  not disable the retries: against a transport that keeps failing, an operation of such a
  client calls the transport four times, the first attempt and three retries.
\<close>

theorem constructor_falsy_defaults:
  "timeout (constructor (options\<lparr>opt_timeout := Some 0\<rparr>)) = 10000 \<and>
   timeout (constructor (options\<lparr>opt_timeout := None\<rparr>)) = 10000 \<and>
   retryCount (constructor (options\<lparr>opt_retryCount := Some 0\<rparr>)) = 3 \<and>
   retryCount (constructor (options\<lparr>opt_retryCount := None\<rparr>)) = 3 \<and>
   retryDelay (constructor (options\<lparr>opt_retryDelay := Some 0\<rparr>)) = 1000 \<and>
   retryDelay (constructor (options\<lparr>opt_retryDelay := None\<rparr>)) = 1000 \<and>
   ((\<forall>i\<le>3. failed (answer net (constructor (options\<lparr>opt_retryCount := Some 0\<rparr>))
                        ''/rci/show/system'' no_options w i)) \<longrightarrow>
      isl (fst (getSystemInfo net (constructor (options\<lparr>opt_retryCount := Some 0\<rparr>)) w)) \<and>
      length (issued w (snd (getSystemInfo net (constructor (options\<lparr>opt_retryCount := Some 0\<rparr>)) w)))
        = 4)"
proof (intro conjI impI)
  let ?cl = "constructor (options\<lparr>opt_retryCount := Some 0\<rparr>)"
  have n: "retryCount ?cl = 3"
    by (simp add: constructor_def or_number_def)
  assume "\<forall>i\<le>3. failed (answer net ?cl ''/rci/show/system'' no_options w i)"
  then have a: "\<forall>i\<le>nat 3. failed (answer net ?cl ''/rci/show/system'' no_options w i)"
    by simp
  then have r: "outcome (answer net ?cl ''/rci/show/system'' no_options w (nat 3))
                  = fst (request net ?cl ''/rci/show/system'' no_options 3 w) \<and>
        calls (snd (request net ?cl ''/rci/show/system'' no_options 3 w))
          = calls w @ replicate (Suc (nat 3)) (request_call ?cl ''/rci/show/system'' no_options)"
    by (rule request_exhausts)
  have "failed (answer net ?cl ''/rci/show/system'' no_options w (nat 3))"
    using a by blast
  with r show "isl (fst (getSystemInfo net ?cl w))"
    by (simp add: getSystemInfo_def n failed_def)
  from r show "length (issued w (snd (getSystemInfo net ?cl w))) = 4"
    by (simp add: getSystemInfo_def n issued_append)
qed (simp_all add: constructor_def or_number_def)

theorem constructor_falsy_defaults_witness:
  "isl (fst (getSystemInfo (\<lambda>i c. Inr server_error)
               (constructor (default_options\<lparr>opt_retryCount := Some 0\<rparr>)) world0)) \<and>
   length (issued world0
     (snd (getSystemInfo (\<lambda>i c. Inr server_error)
             (constructor (default_options\<lparr>opt_retryCount := Some 0\<rparr>)) world0))) = 4"
proof -
  let ?net = "\<lambda>(i::nat) (c::fetch_call). (Inr server_error :: error + response)"
  have "\<forall>i\<le>3. failed (answer ?net (constructor (default_options\<lparr>opt_retryCount := Some 0\<rparr>))
                        ''/rci/show/system'' no_options world0 i)"
    by (simp add: answer_def Let_def failed_def outcome_def ok_def server_error_def)
  then show ?thesis
    using constructor_falsy_defaults [where options = default_options and net = ?net and w = world0]
    by blast
qed


end
